theory Spec2Isabelle
  imports Main "HOL-Library.Sublist" "HOL-Library.Word"
begin

section \<open>Publishing a bundle to a remote OCI registry\<close>

text \<open>
  A shallow embedding of \<open>RemoteBundle.create\<close> from
  \<open>src/pkg/bundler/remotebundle.go\<close>. The function talks to a registry through
  collaborators that live in other packages; every call to one of them is a
  step that records the call, its arguments and its outcome in a log kept in
  the world state, so that what was called, with what, and in which order can
  be stated. Calls to \<open>message.*\<close> only print and are left out.
\<close>

subsection \<open>Data\<close>

text \<open>A Go \<open>error\<close>: the one built by \<open>fmt.Errorf\<close> in \<open>create\<close>, or one
  handed back by a collaborator.\<close>

datatype error = Errorf string | Failure string

type_synonym bytes = "8 word list"

text \<open>\<open>ocispec.Platform\<close>, with the two fields \<open>create\<close> sets.\<close>

record Platform =
  PlatformArchitecture :: string
  OS :: string

text \<open>\<open>ocispec.Descriptor\<close>: the content triple and the annotations.\<close>

record Descriptor =
  MediaType :: string
  Digest :: string
  Size :: int
  Annotations :: "string \<rightharpoonup> string"

text \<open>\<open>ocispec.Manifest\<close>.\<close>

record Manifest =
  SchemaVersion :: int
  Config :: Descriptor
  Layers :: "Descriptor list"
  ManifestAnnotations :: "string \<rightharpoonup> string"

text \<open>The zero values \<open>ocispec.Descriptor{}\<close> and \<open>ocispec.Manifest{}\<close>.\<close>

definition zero_Descriptor :: Descriptor where
  "zero_Descriptor = \<lparr>MediaType = [], Digest = [], Size = 0, Annotations = Map.empty\<rparr>"

definition zero_Manifest :: Manifest where
  "zero_Manifest =
     \<lparr>SchemaVersion = 0, Config = zero_Descriptor, Layers = [], ManifestAnnotations = Map.empty\<rparr>"

text \<open>The fields of \<open>types.UDSBundle\<close> that \<open>create\<close> reads. The build data is
  only handed on, so it is kept opaque.\<close>

record UDSMetadata =
  Name :: string
  Version :: string
  Architecture :: string

type_synonym UDSBuildData = string

record Package =
  Repository :: string
  Ref :: string

record UDSBundle =
  Metadata :: UDSMetadata
  Build :: UDSBuildData
  Packages :: "Package list"

text \<open>\<open>RemoteBundle\<close>, the receiver of \<open>create\<close>. The fields carry the prefix \<open>r_\<close>. The Go field \<open>bundle\<close> is a
  pointer; the bundle is passed by value here, and no collaborator is
  modelled as writing through it.\<close>

record RemoteBundle =
  r_bundle :: UDSBundle
  r_tmpDstDir :: string
  r_output :: string

text \<open>\<open>oci.OrasRemote\<close>: a registry client, seen through
  \<open>Repo().Reference\<close> (kept as its string form).\<close>

record OrasRemote =
  Reference :: string

text \<open>\<open>pusher.Config\<close>. \<open>RemoteSrc\<close> and \<open>PkgRootManifest\<close> are nil until the
  loop sets them.\<close>

record PusherConfig =
  Bundle :: UDSBundle
  RemoteDst :: OrasRemote
  NumPkgs :: nat
  RemoteSrc :: "OrasRemote option"
  PkgRootManifest :: "Manifest option"
  PkgIter :: nat

text \<open>Modelled from the spec: the type of the image index handled by
  \<open>utils.GetIndex\<close> and \<open>utils.UpdateIndex\<close>, which are not part of the source
  file. The spec describes the index as the entries that map a platform to the
  descriptor of that platform's root manifest; it is kept as the list of
  entries, so that a duplicate entry can be told from a replaced one.\<close>

type_synonym Index = "(Platform \<times> Descriptor) list"

subsection \<open>The log of collaborator calls\<close>

text \<open>One constructor per collaborator that \<open>create\<close> calls, with the arguments
  of the call and, last, what came back.\<close>

datatype call =
    Call_referenceFromMetadata string UDSMetadata "error + string"
  | Call_NewOrasRemote string Platform "error + OrasRemote"
  | Call_FetchRoot OrasRemote "error + Manifest"
  | Call_Push Package PusherConfig "error + Descriptor"
  | Call_Marshal UDSBundle "error + bytes"
  | Call_PushLayer OrasRemote bytes string "error + Descriptor"
  | Call_pushManifestConfigFromMetadata OrasRemote UDSMetadata UDSBuildData "error + Descriptor"
  | Call_GetIndex OrasRemote string "error + Index option"
  | Call_ToOCIRemote Manifest string OrasRemote "error + Descriptor"
  | Call_UpdateIndex "Index option" OrasRemote UDSBundle Descriptor "error option"

text \<open>The world outside \<open>create\<close>: the calls made so far, and the image index
  stored under each repository reference.\<close>

record world =
  calls :: "call list"
  indexes :: "string \<rightharpoonup> Index"

definition record_call :: "call \<Rightarrow> world \<Rightarrow> world" where
  "record_call c w = w\<lparr>calls := calls w @ [c]\<rparr>"

subsection \<open>Collaborators\<close>

text \<open>
  What \<open>create\<close> uses and the source file does not define is a parameter: the
  constants of \<open>config\<close>, \<open>oci\<close> and \<open>ocispec\<close>, the pure helpers, and the
  outcome of every registry operation. An outcome may depend on the world, so
  the same operation can succeed once and fail later.
\<close>

record env =
  GetArch :: string
  MultiOS :: string
  ZarfLayerMediaTypeBlob :: string
  MediaTypeImageManifest :: string
  AnnotationTitle :: string
  BundleYAML :: string
  BundleYAMLSignature :: string
  resolve_reference :: "string \<Rightarrow> UDSMetadata \<Rightarrow> error + string"
  manifestAnnotationsFromMetadata :: "UDSMetadata \<Rightarrow> (string \<rightharpoonup> string)"
  marshal :: "UDSBundle \<Rightarrow> error + bytes"
  bind_remote :: "world \<Rightarrow> string \<Rightarrow> Platform \<Rightarrow> error + OrasRemote"
  fetch_root :: "world \<Rightarrow> OrasRemote \<Rightarrow> error + Manifest"
  push_package :: "world \<Rightarrow> Package \<Rightarrow> PusherConfig \<Rightarrow> error + Descriptor"
  push_layer :: "world \<Rightarrow> OrasRemote \<Rightarrow> bytes \<Rightarrow> string \<Rightarrow> error + Descriptor"
  push_config :: "world \<Rightarrow> OrasRemote \<Rightarrow> UDSMetadata \<Rightarrow> UDSBuildData \<Rightarrow> error + Descriptor"
  fetch_index_error :: "world \<Rightarrow> OrasRemote \<Rightarrow> string \<Rightarrow> error option"
  push_manifest :: "world \<Rightarrow> Manifest \<Rightarrow> string \<Rightarrow> OrasRemote \<Rightarrow> error + Descriptor"
  push_index_error :: "world \<Rightarrow> OrasRemote \<Rightarrow> Index \<Rightarrow> error option"
  index_platform :: "OrasRemote \<Rightarrow> UDSBundle \<Rightarrow> Platform"

text \<open>Modelled from the spec: \<open>utils.EnsureOCIPrefix\<close>, which is not part of
  the source file. The spec says that the destination prefix, given with or
  without an explicit scheme, is normalized to an explicit OCI-scheme
  address.\<close>

definition OCIURLPrefix :: string where
  "OCIURLPrefix = ''oci://''"

definition EnsureOCIPrefix :: "string \<Rightarrow> string" where
  "EnsureOCIPrefix source =
     (if prefix OCIURLPrefix source then source else OCIURLPrefix @ source)"

text \<open>The calls, each recording itself.\<close>

definition referenceFromMetadata ::
  "env \<Rightarrow> string \<Rightarrow> UDSMetadata \<Rightarrow> world \<Rightarrow> (error + string) \<times> world" where
  "referenceFromMetadata E registryLocation md w =
     (let res = resolve_reference E registryLocation md
      in (res, record_call (Call_referenceFromMetadata registryLocation md res) w))"

definition NewOrasRemote ::
  "env \<Rightarrow> string \<Rightarrow> Platform \<Rightarrow> world \<Rightarrow> (error + OrasRemote) \<times> world" where
  "NewOrasRemote E url platform w =
     (let res = bind_remote E w url platform
      in (res, record_call (Call_NewOrasRemote url platform res) w))"

definition FetchRoot :: "env \<Rightarrow> OrasRemote \<Rightarrow> world \<Rightarrow> (error + Manifest) \<times> world" where
  "FetchRoot E src w =
     (let res = fetch_root E w src in (res, record_call (Call_FetchRoot src res) w))"

definition Push ::
  "env \<Rightarrow> Package \<Rightarrow> PusherConfig \<Rightarrow> world \<Rightarrow> (error + Descriptor) \<times> world" where
  "Push E pkg cfg w =
     (let res = push_package E w pkg cfg in (res, record_call (Call_Push pkg cfg res) w))"

definition Marshal :: "env \<Rightarrow> UDSBundle \<Rightarrow> world \<Rightarrow> (error + bytes) \<times> world" where
  "Marshal E b w = (let res = marshal E b in (res, record_call (Call_Marshal b res) w))"

definition PushLayer ::
  "env \<Rightarrow> OrasRemote \<Rightarrow> bytes \<Rightarrow> string \<Rightarrow> world \<Rightarrow> (error + Descriptor) \<times> world" where
  "PushLayer E remote b mediaType w =
     (let res = push_layer E w remote b mediaType
      in (res, record_call (Call_PushLayer remote b mediaType res) w))"

definition pushManifestConfigFromMetadata ::
  "env \<Rightarrow> OrasRemote \<Rightarrow> UDSMetadata \<Rightarrow> UDSBuildData \<Rightarrow> world \<Rightarrow> (error + Descriptor) \<times> world"
  where
  "pushManifestConfigFromMetadata E remote md build w =
     (let res = push_config E w remote md build
      in (res, record_call (Call_pushManifestConfigFromMetadata remote md build res) w))"

definition ToOCIRemote ::
  "env \<Rightarrow> Manifest \<Rightarrow> string \<Rightarrow> OrasRemote \<Rightarrow> world \<Rightarrow> (error + Descriptor) \<times> world" where
  "ToOCIRemote E m mediaType remote w =
     (let res = push_manifest E w m mediaType remote
      in (res, record_call (Call_ToOCIRemote m mediaType remote res) w))"

text \<open>Modelled from the spec: \<open>utils.GetIndex\<close>, which is not part of the source
  file. It fetches the existing index of the destination repository; an absent
  index is not an error.\<close>

definition GetIndex ::
  "env \<Rightarrow> OrasRemote \<Rightarrow> string \<Rightarrow> world \<Rightarrow> (error + Index option) \<times> world" where
  "GetIndex E remote ref w =
     (let res = (case fetch_index_error E w remote ref of
                   Some err \<Rightarrow> Inl err
                 | None \<Rightarrow> Inr (indexes w ref))
      in (res, record_call (Call_GetIndex remote ref res) w))"

text \<open>Modelled from the spec: the upsert of \<open>utils.UpdateIndex\<close>. The entry
  whose platform matches is replaced; if there is none, the entry is added;
  every other entry stays as it is.\<close>

fun upsert :: "Platform \<Rightarrow> Descriptor \<Rightarrow> Index \<Rightarrow> Index" where
  "upsert p d [] = [(p, d)]"
| "upsert p d (e # es) = (if fst e = p then (p, d) # es else e # upsert p d es)"

definition index_entries :: "Index option \<Rightarrow> Index" where
  "index_entries index = (case index of None \<Rightarrow> [] | Some ix \<Rightarrow> ix)"

text \<open>Modelled from the spec: \<open>utils.UpdateIndex\<close>, which is not part of the
  source file. It upserts the entry for the current platform into the index
  (an absent index is a fresh one with no entries) and pushes the updated
  index. Which of its arguments gives the current platform is not said, so
  that is the parameter \<open>index_platform\<close>.\<close>

definition UpdateIndex ::
  "env \<Rightarrow> Index option \<Rightarrow> OrasRemote \<Rightarrow> UDSBundle \<Rightarrow> Descriptor \<Rightarrow> world
    \<Rightarrow> error option \<times> world" where
  "UpdateIndex E index remote b newManifestDesc w =
     (let newIndex = upsert (index_platform E remote b) newManifestDesc (index_entries index);
          res = push_index_error E w remote newIndex;
          w' = (case res of
                  Some err \<Rightarrow> w
                | None \<Rightarrow> w\<lparr>indexes := (indexes w)(Reference remote \<mapsto> newIndex)\<rparr>)
      in (res, record_call (Call_UpdateIndex index remote b newManifestDesc res) w'))"

subsection \<open>The package loop of \<open>create\<close>\<close>

text \<open>\<open>for i, pkg := range bundle.Packages\<close>: the loop variable \<open>i\<close>, the
  packages still to come, and what the body carries over, the pusher
  configuration and the layers appended so far. The first error leaves the
  loop and the function.\<close>

fun push_packages ::
  "env \<Rightarrow> Platform \<Rightarrow> nat \<Rightarrow> Package list \<Rightarrow> PusherConfig \<Rightarrow> Descriptor list \<Rightarrow> world
    \<Rightarrow> (error + Descriptor list) \<times> world" where
  "push_packages E platform i [] pusherConfig layers w = (Inr layers, w)"
| "push_packages E platform i (pkg # pkgs) pusherConfig layers w =
     (let pkgUrl = Repository pkg @ '':'' @ Ref pkg in
      case NewOrasRemote E pkgUrl platform w of
        (Inl err, w1) \<Rightarrow> (Inl err, w1)
      | (Inr src, w1) \<Rightarrow>
          (let pusherConfig1 = pusherConfig\<lparr>RemoteSrc := Some src\<rparr> in
           case FetchRoot E src w1 of
             (Inl err, w2) \<Rightarrow> (Inl err, w2)
           | (Inr pkgRootManifest, w2) \<Rightarrow>
               (let pusherConfig2 =
                      pusherConfig1\<lparr>PkgRootManifest := Some pkgRootManifest, PkgIter := i\<rparr> in
                case Push E pkg pusherConfig2 w2 of
                  (Inl err, w3) \<Rightarrow> (Inl err, w3)
                | (Inr zarfManifestDesc, w3) \<Rightarrow>
                    push_packages E platform (Suc i) pkgs pusherConfig2
                      (layers @ [zarfManifestDesc]) w3)))"

subsection \<open>\<open>create\<close>\<close>

text \<open>The result is the returned error (\<open>None\<close> is \<open>nil\<close>), the receiver as the
  call leaves it, and the world.\<close>

definition create ::
  "env \<Rightarrow> RemoteBundle \<Rightarrow> bytes \<Rightarrow> world \<Rightarrow> error option \<times> RemoteBundle \<times> world" where
  "create E r0 signature w0 =
     (let r = r0\<lparr>r_output := EnsureOCIPrefix (r_output r0)\<rparr> in
      case referenceFromMetadata E (r_output r) (Metadata (r_bundle r)) w0 of
        (Inl err, w1) \<Rightarrow> (Some err, r, w1)
      | (Inr ref, w1) \<Rightarrow>
     (let platform = \<lparr>PlatformArchitecture = GetArch E, OS = MultiOS E\<rparr> in
      case NewOrasRemote E ref platform w1 of
        (Inl err, w2) \<Rightarrow> (Some err, r, w2)
      | (Inr bundleRemote, w2) \<Rightarrow>
     (let b = r_bundle r in
      if Architecture (Metadata b) = []
      then (Some (Errorf ''architecture is required for bundling''), r, w2)
      else
     (let dstRef = Reference bundleRemote;
          rootManifest = zero_Manifest;
          pusherConfig = \<lparr>Bundle = b, RemoteDst = bundleRemote, NumPkgs = length (Packages b),
                          RemoteSrc = None, PkgRootManifest = None, PkgIter = 0\<rparr> in
      case push_packages E platform 0 (Packages b) pusherConfig (Layers rootManifest) w2 of
        (Inl err, w3) \<Rightarrow> (Some err, r, w3)
      | (Inr layers, w3) \<Rightarrow>
     (let rootManifest1 = rootManifest\<lparr>Layers := layers\<rparr> in
      case Marshal E b w3 of
        (Inl err, w4) \<Rightarrow> (Some err, r, w4)
      | (Inr bundleYamlBytes, w4) \<Rightarrow>
     (case PushLayer E bundleRemote bundleYamlBytes (ZarfLayerMediaTypeBlob E) w4 of
        (Inl err, w5) \<Rightarrow> (Some err, r, w5)
      | (Inr bundleYamlDesc0, w5) \<Rightarrow>
     (let bundleYamlDesc =
            bundleYamlDesc0\<lparr>Annotations := [AnnotationTitle E \<mapsto> BundleYAML E]\<rparr>;
          rootManifest2 = rootManifest1\<lparr>Layers := Layers rootManifest1 @ [bundleYamlDesc]\<rparr> in
      case (if length signature > 0
            then (case PushLayer E bundleRemote signature (ZarfLayerMediaTypeBlob E) w5 of
                    (Inl err, w6) \<Rightarrow> (Inl err, w6)
                  | (Inr bundleYamlSigDesc0, w6) \<Rightarrow>
                      (let bundleYamlSigDesc =
                             bundleYamlSigDesc0
                               \<lparr>Annotations := [AnnotationTitle E \<mapsto> BundleYAMLSignature E]\<rparr>
                       in (Inr (rootManifest2
                                  \<lparr>Layers := Layers rootManifest2 @ [bundleYamlSigDesc]\<rparr>), w6)))
            else (Inr rootManifest2, w5)) of
        (Inl err, w6) \<Rightarrow> (Some err, r, w6)
      | (Inr rootManifest3, w6) \<Rightarrow>
     (case pushManifestConfigFromMetadata E bundleRemote (Metadata b) (Build b) w6 of
        (Inl err, w7) \<Rightarrow> (Some err, r, w7)
      | (Inr configDesc, w7) \<Rightarrow>
     (case GetIndex E bundleRemote dstRef w7 of
        (Inl err, w8) \<Rightarrow> (Some err, r, w8)
      | (Inr index, w8) \<Rightarrow>
     (let rootManifest4 =
            rootManifest3\<lparr>Config := configDesc, SchemaVersion := 2,
              ManifestAnnotations := manifestAnnotationsFromMetadata E (Metadata b)\<rparr> in
      case ToOCIRemote E rootManifest4 (MediaTypeImageManifest E) bundleRemote w8 of
        (Inl err, w9) \<Rightarrow> (Some err, r, w9)
      | (Inr rootManifestDesc, w9) \<Rightarrow>
     (case UpdateIndex E index bundleRemote b rootManifestDesc w9 of
        (Some err, w10) \<Rightarrow> (Some err, r, w10)
      | (None, w10) \<Rightarrow> (None, r, w10))))))))))))"

subsection \<open>Observing a run\<close>

text \<open>What one call of \<open>create\<close> returns, the world it leaves, and the calls it
  made, in order.\<close>

definition returned :: "env \<Rightarrow> RemoteBundle \<Rightarrow> bytes \<Rightarrow> world \<Rightarrow> error option" where
  "returned E r signature w = fst (create E r signature w)"

definition receiver_after :: "env \<Rightarrow> RemoteBundle \<Rightarrow> bytes \<Rightarrow> world \<Rightarrow> RemoteBundle" where
  "receiver_after E r signature w = fst (snd (create E r signature w))"

definition world_after :: "env \<Rightarrow> RemoteBundle \<Rightarrow> bytes \<Rightarrow> world \<Rightarrow> world" where
  "world_after E r signature w = snd (snd (create E r signature w))"

definition calls_made :: "env \<Rightarrow> RemoteBundle \<Rightarrow> bytes \<Rightarrow> world \<Rightarrow> call list" where
  "calls_made E r signature w = drop (length (calls w)) (calls (world_after E r signature w))"

text \<open>The error a call came back with.\<close>

fun call_error :: "call \<Rightarrow> error option" where
  "call_error (Call_referenceFromMetadata _ _ res) = (case res of Inl e \<Rightarrow> Some e | Inr _ \<Rightarrow> None)"
| "call_error (Call_NewOrasRemote _ _ res) = (case res of Inl e \<Rightarrow> Some e | Inr _ \<Rightarrow> None)"
| "call_error (Call_FetchRoot _ res) = (case res of Inl e \<Rightarrow> Some e | Inr _ \<Rightarrow> None)"
| "call_error (Call_Push _ _ res) = (case res of Inl e \<Rightarrow> Some e | Inr _ \<Rightarrow> None)"
| "call_error (Call_Marshal _ res) = (case res of Inl e \<Rightarrow> Some e | Inr _ \<Rightarrow> None)"
| "call_error (Call_PushLayer _ _ _ res) = (case res of Inl e \<Rightarrow> Some e | Inr _ \<Rightarrow> None)"
| "call_error (Call_pushManifestConfigFromMetadata _ _ _ res) =
     (case res of Inl e \<Rightarrow> Some e | Inr _ \<Rightarrow> None)"
| "call_error (Call_GetIndex _ _ res) = (case res of Inl e \<Rightarrow> Some e | Inr _ \<Rightarrow> None)"
| "call_error (Call_ToOCIRemote _ _ _ res) = (case res of Inl e \<Rightarrow> Some e | Inr _ \<Rightarrow> None)"
| "call_error (Call_UpdateIndex _ _ _ _ res) = res"

text \<open>A log is fail-fast when nothing follows a failed call; its first error
  is the error of the first failed call.\<close>

fun fail_fast :: "call list \<Rightarrow> bool" where
  "fail_fast [] = True"
| "fail_fast (c # cs) = (if call_error c = None then fail_fast cs else cs = [])"

fun first_error :: "call list \<Rightarrow> error option" where
  "first_error [] = None"
| "first_error (c # cs) = (case call_error c of None \<Rightarrow> first_error cs | Some e \<Rightarrow> Some e)"

text \<open>The calls of the package loop: the bind of a client to the given
  platform, the fetch of a root manifest, the push of a package.\<close>

fun is_package_call :: "Platform \<Rightarrow> call \<Rightarrow> bool" where
  "is_package_call p (Call_NewOrasRemote _ q _) = (q = p)"
| "is_package_call p (Call_FetchRoot _ _) = True"
| "is_package_call p (Call_Push _ _ _) = True"
| "is_package_call p _ = False"

text \<open>The calls between the package loop and the push of the root manifest.\<close>

fun is_assembly_call :: "call \<Rightarrow> bool" where
  "is_assembly_call (Call_Marshal _ _) = True"
| "is_assembly_call (Call_PushLayer _ _ _ _) = True"
| "is_assembly_call (Call_pushManifestConfigFromMetadata _ _ _ _) = True"
| "is_assembly_call (Call_GetIndex _ _ _) = True"
| "is_assembly_call _ = False"

text \<open>The package pushes that succeeded: the loop index the pusher was given,
  the package, and the descriptor that came back.\<close>

fun package_push :: "call \<Rightarrow> (nat \<times> Package \<times> Descriptor) option" where
  "package_push (Call_Push pkg cfg (Inr d)) = Some (PkgIter cfg, pkg, d)"
| "package_push _ = None"

definition pushed_packages :: "call list \<Rightarrow> (nat \<times> Package \<times> Descriptor) list" where
  "pushed_packages cs = List.map_filter package_push cs"

text \<open>The error of a failed client bind, root-manifest fetch or package push.
  The bind of the destination client is a \<open>Call_NewOrasRemote\<close> as well.\<close>

fun package_step_error :: "call \<Rightarrow> error option" where
  "package_step_error (Call_NewOrasRemote _ _ (Inl e)) = Some e"
| "package_step_error (Call_FetchRoot _ (Inl e)) = Some e"
| "package_step_error (Call_Push _ _ (Inl e)) = Some e"
| "package_step_error _ = None"

text \<open>The pushes of the bundle's own content: a blob layer (metadata or
  signature), the config blob, the root manifest, the index.\<close>

fun is_bundle_push :: "call \<Rightarrow> bool" where
  "is_bundle_push (Call_PushLayer _ _ _ _) = True"
| "is_bundle_push (Call_pushManifestConfigFromMetadata _ _ _ _) = True"
| "is_bundle_push (Call_ToOCIRemote _ _ _ _) = True"
| "is_bundle_push (Call_UpdateIndex _ _ _ _ _) = True"
| "is_bundle_push _ = False"

text \<open>The manifests handed to \<open>utils.ToOCIRemote\<close>.\<close>

fun manifest_push :: "call \<Rightarrow> Manifest option" where
  "manifest_push (Call_ToOCIRemote m _ _ _) = Some m"
| "manifest_push _ = None"

definition pushed_manifests :: "call list \<Rightarrow> Manifest list" where
  "pushed_manifests cs = List.map_filter manifest_push cs"

text \<open>The content triple of a descriptor, and the triple of the descriptor
  that a successful push of a package, a blob layer or the config returned.\<close>

definition content :: "Descriptor \<Rightarrow> string \<times> string \<times> int" where
  "content d = (MediaType d, Digest d, Size d)"

fun pushed_content :: "call \<Rightarrow> (string \<times> string \<times> int) option" where
  "pushed_content (Call_Push _ _ (Inr d)) = Some (content d)"
| "pushed_content (Call_PushLayer _ _ _ (Inr d)) = Some (content d)"
| "pushed_content (Call_pushManifestConfigFromMetadata _ _ _ (Inr d)) = Some (content d)"
| "pushed_content _ = None"

text \<open>The registry locations handed to \<open>referenceFromMetadata\<close>.\<close>

fun resolved_location :: "call \<Rightarrow> string option" where
  "resolved_location (Call_referenceFromMetadata loc _ _) = Some loc"
| "resolved_location _ = None"

definition resolved_locations :: "call list \<Rightarrow> string list" where
  "resolved_locations cs = List.map_filter resolved_location cs"

text \<open>The platforms that clients were bound to.\<close>

fun bound_platform :: "call \<Rightarrow> Platform option" where
  "bound_platform (Call_NewOrasRemote _ p _) = Some p"
| "bound_platform _ = None"

subsection \<open>Example runs\<close>

text \<open>A registry in which every operation succeeds, a bundle of two packages,
  and variations of them.\<close>

definition example_env :: env where
  "example_env =
     \<lparr>GetArch = ''amd64'', MultiOS = ''multi'', ZarfLayerMediaTypeBlob = ''blob'',
      MediaTypeImageManifest = ''manifest'', AnnotationTitle = ''title'',
      BundleYAML = ''uds-bundle.yaml'', BundleYAMLSignature = ''uds-bundle.yaml.sig'',
      resolve_reference = (\<lambda>loc md. Inr (loc @ ''/'' @ Name md @ '':'' @ Version md)),
      manifestAnnotationsFromMetadata = (\<lambda>md. [''title'' \<mapsto> Name md]),
      marshal = (\<lambda>b. Inr [1, 2, 3]),
      bind_remote = (\<lambda>w url p. Inr \<lparr>Reference = url\<rparr>),
      fetch_root = (\<lambda>w src. Inr zero_Manifest),
      push_package = (\<lambda>w pkg cfg. Inr \<lparr>MediaType = ''manifest'', Digest = Repository pkg,
                         Size = int (PkgIter cfg), Annotations = Map.empty\<rparr>),
      push_layer = (\<lambda>w remote b mt. Inr \<lparr>MediaType = mt, Digest = ''layer'',
                         Size = int (length b), Annotations = Map.empty\<rparr>),
      push_config = (\<lambda>w remote md build. Inr \<lparr>MediaType = ''config'', Digest = Name md,
                         Size = 2, Annotations = Map.empty\<rparr>),
      fetch_index_error = (\<lambda>w remote ref. None),
      push_manifest = (\<lambda>w m mt remote. Inr \<lparr>MediaType = mt, Digest = ''root'',
                         Size = int (length (Layers m)), Annotations = Map.empty\<rparr>),
      push_index_error = (\<lambda>w remote ix. None),
      index_platform = (\<lambda>remote b. \<lparr>PlatformArchitecture = Architecture (Metadata b),
                         OS = ''multi''\<rparr>)\<rparr>"

text \<open>The same registry, but the push of the second package fails.\<close>

definition failing_env :: env where
  "failing_env =
     example_env\<lparr>push_package :=
       (\<lambda>w pkg cfg. if PkgIter cfg = 1 then Inl (Failure ''push refused'')
                     else push_package example_env w pkg cfg)\<rparr>"

text \<open>The same registry, but the reference cannot be resolved.\<close>

definition unresolved_env :: env where
  "unresolved_env =
     example_env\<lparr>resolve_reference := (\<lambda>loc md. Inl (Failure ''version is required''))\<rparr>"

definition example_bundle :: UDSBundle where
  "example_bundle =
     \<lparr>Metadata = \<lparr>Name = ''core'', Version = ''1'', Architecture = ''amd64''\<rparr>,
      Build = ''build'',
      Packages = [\<lparr>Repository = ''a'', Ref = ''1''\<rparr>, \<lparr>Repository = ''b'', Ref = ''2''\<rparr>]\<rparr>"

definition example_receiver :: RemoteBundle where
  "example_receiver = \<lparr>r_bundle = example_bundle, r_tmpDstDir = ''tmp'', r_output = ''reg''\<rparr>"

text \<open>The same receiver, with a bundle that has no architecture.\<close>

definition no_arch_receiver :: RemoteBundle where
  "no_arch_receiver =
     example_receiver\<lparr>r_bundle :=
       example_bundle\<lparr>Metadata := \<lparr>Name = ''core'', Version = ''1'', Architecture = []\<rparr>\<rparr>\<rparr>"

definition example_world :: world where
  "example_world = \<lparr>calls = [], indexes = Map.empty\<rparr>"

text \<open>A world in which the destination repository already has an index, with
  an entry for this platform and one for another.\<close>

definition old_root :: Descriptor where
  "old_root = \<lparr>MediaType = ''manifest'', Digest = ''old'', Size = 1, Annotations = Map.empty\<rparr>"

definition indexed_world :: world where
  "indexed_world =
     \<lparr>calls = [],
      indexes = [''oci://reg/core:1'' \<mapsto>
        [(\<lparr>PlatformArchitecture = ''arm64'', OS = ''multi''\<rparr>, old_root),
         (\<lparr>PlatformArchitecture = ''amd64'', OS = ''multi''\<rparr>, old_root)]]\<rparr>"

section \<open>Properties\<close>

subsection \<open>The package loop\<close>

lemmas step_defs = referenceFromMetadata_def NewOrasRemote_def FetchRoot_def Push_def Marshal_def
  PushLayer_def pushManifestConfigFromMetadata_def ToOCIRemote_def GetIndex_def UpdateIndex_def
  record_call_def

lemma pushed_packages_simps [simp]:
  "pushed_packages [] = []"
  "pushed_packages (c # cs) = (case package_push c of None \<Rightarrow> pushed_packages cs | Some x \<Rightarrow> x # pushed_packages cs)"
  "pushed_packages (cs @ cs') = pushed_packages cs @ pushed_packages cs'"
  by (auto simp: pushed_packages_def List.map_filter_def split: option.splits)

lemma push_packages_calls:
  "push_packages E p i pkgs cfg layers w = (res, w') \<Longrightarrow>
     \<exists>cs. calls w' = calls w @ cs \<and> indexes w' = indexes w \<and> (\<forall>c \<in> set cs. is_package_call p c)
        \<and> fail_fast cs \<and> first_error cs = (case res of Inl e \<Rightarrow> Some e | Inr _ \<Rightarrow> None)
        \<and> (\<forall>ls. res = Inr ls \<longrightarrow> (\<exists>ds. ls = layers @ ds \<and> length ds = length pkgs \<and>
               pushed_packages cs = enumerate i (zip pkgs ds)))"
proof (induction pkgs arbitrary: i cfg layers w)
  case Nil
  then show ?case by auto
next
  case (Cons pkg pkgs)
  define url where "url = Repository pkg @ '':'' @ Ref pkg"
  define r1 where "r1 = bind_remote E w url p"
  define c1 where "c1 = Call_NewOrasRemote url p r1"
  define w1 where "w1 = record_call c1 w"
  show ?case
  proof (cases r1)
    case (Inl e)
    with Cons.prems have "res = Inl e" "w' = w1"
      by (simp_all add: NewOrasRemote_def Let_def r1_def c1_def w1_def url_def)
    then show ?thesis
      using Inl by (intro exI[of _ "[c1]"]) (simp add: w1_def record_call_def c1_def)
  next
    case (Inr src)
    define r2 where "r2 = fetch_root E w1 src"
    define c2 where "c2 = Call_FetchRoot src r2"
    define w2 where "w2 = record_call c2 w1"
    show ?thesis
    proof (cases r2)
      case (Inl e)
      with Cons.prems Inr have "res = Inl e" "w' = w2"
        by (simp_all add: NewOrasRemote_def FetchRoot_def Let_def r1_def c1_def w1_def url_def
            r2_def c2_def w2_def)
      then show ?thesis
        using Inl Inr
        by (intro exI[of _ "[c1, c2]"]) (simp add: w1_def w2_def record_call_def c1_def c2_def)
    next
      case m: (Inr m)
      define cfg2 where
        "cfg2 = cfg\<lparr>RemoteSrc := Some src, PkgRootManifest := Some m, PkgIter := i\<rparr>"
      define r3 where "r3 = push_package E w2 pkg cfg2"
      define c3 where "c3 = Call_Push pkg cfg2 r3"
      define w3 where "w3 = record_call c3 w2"
      show ?thesis
      proof (cases r3)
        case (Inl e)
        with Cons.prems Inr m have "res = Inl e" "w' = w3"
          by (simp_all add: NewOrasRemote_def FetchRoot_def Push_def Let_def r1_def c1_def w1_def
              url_def r2_def c2_def w2_def r3_def c3_def w3_def cfg2_def)
        then show ?thesis
          using Inl Inr m
          by (intro exI[of _ "[c1, c2, c3]"])
            (simp add: w1_def w2_def w3_def record_call_def c1_def c2_def c3_def)
      next
        case d: (Inr d)
        with Cons.prems Inr m
        have rec: "push_packages E p (Suc i) pkgs cfg2 (layers @ [d]) w3 = (res, w')"
          by (simp add: NewOrasRemote_def FetchRoot_def Push_def Let_def r1_def c1_def w1_def
              url_def r2_def c2_def w2_def r3_def c3_def w3_def cfg2_def)
        from Cons.IH[OF rec] obtain cs where cs:
          "calls w' = calls w3 @ cs" "indexes w' = indexes w3"
          "\<forall>c \<in> set cs. is_package_call p c" "fail_fast cs"
          "first_error cs = (case res of Inl e \<Rightarrow> Some e | Inr _ \<Rightarrow> None)"
          "\<forall>ls. res = Inr ls \<longrightarrow> (\<exists>ds. ls = (layers @ [d]) @ ds \<and> length ds = length pkgs \<and>
               pushed_packages cs = enumerate (Suc i) (zip pkgs ds))"
          by blast
        have w3: "calls w3 = calls w @ [c1, c2, c3]" "indexes w3 = indexes w"
          by (simp_all add: w1_def w2_def w3_def record_call_def)
        have layers: "\<forall>ls. res = Inr ls \<longrightarrow> (\<exists>ds. ls = layers @ ds \<and> length ds = length (pkg # pkgs) \<and>
               pushed_packages ([c1, c2, c3] @ cs) = enumerate i (zip (pkg # pkgs) ds))"
        proof (intro allI impI)
          fix ls assume "res = Inr ls"
          with cs(6) obtain ds where ds: "ls = (layers @ [d]) @ ds" "length ds = length pkgs"
            "pushed_packages cs = enumerate (Suc i) (zip pkgs ds)"
            by blast
          show "\<exists>ds. ls = layers @ ds \<and> length ds = length (pkg # pkgs) \<and>
               pushed_packages ([c1, c2, c3] @ cs) = enumerate i (zip (pkg # pkgs) ds)"
            using ds d
            by (intro exI[of _ "d # ds"]) (simp add: c1_def c2_def c3_def cfg2_def)
        qed
        show ?thesis
          using cs(1-5) w3 Inr m d layers
          by (intro exI[of _ "[c1, c2, c3] @ cs"])
            (simp add: c1_def c2_def c3_def del: pushed_packages_simps)
      qed
    qed
  qed
qed


subsection \<open>The runs of \<open>create\<close>\<close>

lemma create_cases [consumes 1, case_names reference_failed bind_failed no_architecture
    package_failed assembly_failed manifest_pushed]:
  assumes "create E r signature w = (res, r', w')"
  obtains
    (reference_failed) e where
      "res = Some e"
      "calls w' = calls w @
         [Call_referenceFromMetadata (EnsureOCIPrefix (r_output r)) (Metadata (r_bundle r)) (Inl e)]"
      "indexes w' = indexes w"
  | (bind_failed) ref e where
      "res = Some e"
      "calls w' = calls w @
         [Call_referenceFromMetadata (EnsureOCIPrefix (r_output r)) (Metadata (r_bundle r)) (Inr ref),
          Call_NewOrasRemote ref \<lparr>PlatformArchitecture = GetArch E, OS = MultiOS E\<rparr> (Inl e)]"
      "indexes w' = indexes w"
  | (no_architecture) ref dst where
      "Architecture (Metadata (r_bundle r)) = []"
      "res = Some (Errorf ''architecture is required for bundling'')"
      "calls w' = calls w @
         [Call_referenceFromMetadata (EnsureOCIPrefix (r_output r)) (Metadata (r_bundle r)) (Inr ref),
          Call_NewOrasRemote ref \<lparr>PlatformArchitecture = GetArch E, OS = MultiOS E\<rparr> (Inr dst)]"
      "indexes w' = indexes w"
  | (package_failed) ref dst pcs e where
      "Architecture (Metadata (r_bundle r)) \<noteq> []"
      "res = Some e"
      "calls w' = calls w @
         [Call_referenceFromMetadata (EnsureOCIPrefix (r_output r)) (Metadata (r_bundle r)) (Inr ref),
          Call_NewOrasRemote ref \<lparr>PlatformArchitecture = GetArch E, OS = MultiOS E\<rparr> (Inr dst)]
         @ pcs"
      "\<forall>c \<in> set pcs. is_package_call \<lparr>PlatformArchitecture = GetArch E, OS = MultiOS E\<rparr> c"
      "fail_fast pcs" "first_error pcs = Some e"
      "indexes w' = indexes w"
  | (assembly_failed) ref dst pcs acs e where
      "Architecture (Metadata (r_bundle r)) \<noteq> []"
      "res = Some e"
      "calls w' = calls w @
         [Call_referenceFromMetadata (EnsureOCIPrefix (r_output r)) (Metadata (r_bundle r)) (Inr ref),
          Call_NewOrasRemote ref \<lparr>PlatformArchitecture = GetArch E, OS = MultiOS E\<rparr> (Inr dst)]
         @ pcs @ acs"
      "\<forall>c \<in> set pcs. is_package_call \<lparr>PlatformArchitecture = GetArch E, OS = MultiOS E\<rparr> c"
      "first_error pcs = None"
      "\<forall>c \<in> set acs. is_assembly_call c" "fail_fast acs" "first_error acs = Some e"
      "indexes w' = indexes w"
  | (manifest_pushed) ref dst pcs ds yaml yd sigcs sl cd idx m mres tail where
      "Architecture (Metadata (r_bundle r)) \<noteq> []"
      "calls w' = calls w @
         [Call_referenceFromMetadata (EnsureOCIPrefix (r_output r)) (Metadata (r_bundle r)) (Inr ref),
          Call_NewOrasRemote ref \<lparr>PlatformArchitecture = GetArch E, OS = MultiOS E\<rparr> (Inr dst)]
         @ pcs @
         [Call_Marshal (r_bundle r) (Inr yaml),
          Call_PushLayer dst yaml (ZarfLayerMediaTypeBlob E) (Inr yd)]
         @ sigcs @
         [Call_pushManifestConfigFromMetadata dst (Metadata (r_bundle r)) (Build (r_bundle r)) (Inr cd),
          Call_GetIndex dst (Reference dst) (Inr idx),
          Call_ToOCIRemote m (MediaTypeImageManifest E) dst mres]
         @ tail"
      "\<forall>c \<in> set pcs. is_package_call \<lparr>PlatformArchitecture = GetArch E, OS = MultiOS E\<rparr> c"
      "first_error pcs = None"
      "length ds = length (Packages (r_bundle r))"
      "pushed_packages pcs = enumerate 0 (zip (Packages (r_bundle r)) ds)"
      "signature = [] \<and> sigcs = [] \<and> sl = [] \<or>
       (\<exists>sd. signature \<noteq> [] \<and>
          sigcs = [Call_PushLayer dst signature (ZarfLayerMediaTypeBlob E) (Inr sd)] \<and>
          sl = [sd\<lparr>Annotations := [AnnotationTitle E \<mapsto> BundleYAMLSignature E]\<rparr>])"
      "m = \<lparr>SchemaVersion = 2, Config = cd,
            Layers = ds @ [yd\<lparr>Annotations := [AnnotationTitle E \<mapsto> BundleYAML E]\<rparr>] @ sl,
            ManifestAnnotations = manifestAnnotationsFromMetadata E (Metadata (r_bundle r))\<rparr>"
      "idx = indexes w (Reference dst)"
      "case mres of
         Inl e \<Rightarrow> res = Some e \<and> tail = [] \<and> indexes w' = indexes w
       | Inr d \<Rightarrow>
           (\<exists>ures. tail = [Call_UpdateIndex idx dst (r_bundle r) d ures] \<and> res = ures \<and>
              indexes w' =
                (case ures of
                   None \<Rightarrow> (indexes w)(Reference dst \<mapsto>
                             upsert (index_platform E dst (r_bundle r)) d (index_entries idx))
                 | Some _ \<Rightarrow> indexes w))"
proof -
  let ?loc = "EnsureOCIPrefix (r_output r)"
  let ?b = "r_bundle r"
  let ?md = "Metadata ?b"
  let ?pf = "\<lparr>PlatformArchitecture = GetArch E, OS = MultiOS E\<rparr>"
  note run = assms[unfolded create_def Let_def]
  define r1 where "r1 = resolve_reference E ?loc ?md"
  define c1 where "c1 = Call_referenceFromMetadata ?loc ?md r1"
  define w1 where "w1 = record_call c1 w"
  have s1: "referenceFromMetadata E ?loc ?md w = (r1, w1)"
    by (simp add: referenceFromMetadata_def r1_def c1_def w1_def Let_def)
  have cw1: "calls w1 = calls w @ [c1]" "indexes w1 = indexes w"
    by (simp_all add: w1_def record_call_def)
  show thesis
  proof (cases r1)
    case (Inl e)
    with run s1 have "res = Some e" "w' = w1" by simp_all
    then show thesis
      using Inl cw1 by (intro reference_failed[of e]) (simp_all add: c1_def)
  next
    case ref: (Inr ref)
    define r2 where "r2 = bind_remote E w1 ref ?pf"
    define c2 where "c2 = Call_NewOrasRemote ref ?pf r2"
    define w2 where "w2 = record_call c2 w1"
    have s2: "NewOrasRemote E ref ?pf w1 = (r2, w2)"
      by (simp add: NewOrasRemote_def r2_def c2_def w2_def Let_def)
    have cw2: "calls w2 = calls w @ [c1, c2]" "indexes w2 = indexes w"
      by (simp_all add: w2_def record_call_def cw1)
    show thesis
    proof (cases r2)
      case (Inl e)
      with run s1 s2 ref have "res = Some e" "w' = w2" by simp_all
      then show thesis
        using Inl ref cw2 by (intro bind_failed[of e ref]) (simp_all add: c1_def c2_def)
    next
      case dst: (Inr dst)
      show thesis
      proof (cases "Architecture ?md = []")
        case True
        with run s1 s2 ref dst
        have "res = Some (Errorf ''architecture is required for bundling'')" "w' = w2"
          by simp_all
        then show thesis
          using True ref dst cw2 by (intro no_architecture[of ref dst]) (simp_all add: c1_def c2_def)
      next
        case arch: False
        define cfg0 where "cfg0 = \<lparr>Bundle = ?b, RemoteDst = dst, NumPkgs = length (Packages ?b),
          RemoteSrc = None, PkgRootManifest = None, PkgIter = 0\<rparr>"
        obtain r4 w4 where s4': "push_packages E ?pf 0 (Packages ?b) cfg0 [] w2 = (r4, w4)"
          by (cases "push_packages E ?pf 0 (Packages ?b) cfg0 [] w2")
        note s4 = s4'[unfolded cfg0_def]
        from push_packages_calls[OF s4'] cw2 obtain pcs where pcs:
          "calls w4 = calls w @ [c1, c2] @ pcs" "indexes w4 = indexes w"
          "\<forall>c \<in> set pcs. is_package_call ?pf c" "fail_fast pcs"
          "first_error pcs = (case r4 of Inl e \<Rightarrow> Some e | Inr _ \<Rightarrow> None)"
          "\<forall>ls. r4 = Inr ls \<longrightarrow> (\<exists>ds. ls = [] @ ds \<and> length ds = length (Packages ?b) \<and>
             pushed_packages pcs = enumerate 0 (zip (Packages ?b) ds))"
          by auto
        show thesis
        proof (cases r4)
          case (Inl e)
          with run s1 s2 s4 ref dst arch have "res = Some e" "w' = w4"
            by (simp_all add: zero_Manifest_def)
          then show thesis
            using Inl ref dst arch pcs
            by (intro package_failed[of e ref dst pcs]) (simp_all add: c1_def c2_def)
        next
          case ls: (Inr ds)
          with pcs have noerr: "first_error pcs = None" and ds: "length ds = length (Packages ?b)"
            "pushed_packages pcs = enumerate 0 (zip (Packages ?b) ds)"
            by auto
          define r5 where "r5 = marshal E ?b"
          define c5 where "c5 = Call_Marshal ?b r5"
          define w5 where "w5 = record_call c5 w4"
          have s5: "Marshal E ?b w4 = (r5, w5)"
            by (simp add: Marshal_def r5_def c5_def w5_def Let_def)
          have cw5: "calls w5 = calls w4 @ [c5]" "indexes w5 = indexes w"
            using pcs by (simp_all add: w5_def record_call_def)
          show thesis
          proof (cases r5)
            case (Inl e)
            with run s1 s2 s4 s5 ref dst arch ls have "res = Some e" "w' = w5"
              by (simp_all add: zero_Manifest_def)
            then show thesis
              using Inl ref dst arch pcs cw5 noerr
              by (intro assembly_failed[of e ref dst pcs "[c5]"]) (simp_all add: c1_def c2_def c5_def)
          next
            case yaml: (Inr yaml)
            define r6 where "r6 = push_layer E w5 dst yaml (ZarfLayerMediaTypeBlob E)"
            define c6 where "c6 = Call_PushLayer dst yaml (ZarfLayerMediaTypeBlob E) r6"
            define w6 where "w6 = record_call c6 w5"
            have s6: "PushLayer E dst yaml (ZarfLayerMediaTypeBlob E) w5 = (r6, w6)"
              by (simp add: PushLayer_def r6_def c6_def w6_def Let_def)
            have cw6: "calls w6 = calls w5 @ [c6]" "indexes w6 = indexes w"
              using cw5 by (simp_all add: w6_def record_call_def)
            show thesis
            proof (cases r6)
              case (Inl e)
              with run s1 s2 s4 s5 s6 ref dst arch ls yaml have "res = Some e" "w' = w6"
                by (simp_all add: zero_Manifest_def)
              then show thesis
                using Inl ref dst arch yaml pcs cw5 cw6 noerr
                by (intro assembly_failed[of e ref dst pcs "[c5, c6]"])
                  (simp_all add: c1_def c2_def c5_def c6_def)
            next
              case yd: (Inr yd)
              show thesis
              proof (cases "signature = []")
                case sg: True

              define r8 where "r8 = push_config E w6 dst ?md (Build ?b)"
              define c8 where "c8 = Call_pushManifestConfigFromMetadata dst ?md (Build ?b) r8"
              define w8 where "w8 = record_call c8 w6"
              have s8: "pushManifestConfigFromMetadata E dst ?md (Build ?b) w6 = (r8, w8)"
                by (simp add: pushManifestConfigFromMetadata_def r8_def c8_def w8_def Let_def)
              have cw8: "calls w8 = calls w6 @ [c8]" "indexes w8 = indexes w"
                using cw6 by (simp_all add: w8_def record_call_def)
              show thesis
              proof (cases r8)
                case (Inl e)
                with run s1 s2 s4 s5 s6 ref dst arch ls yaml yd sg s8 have "res = Some e" "w' = w8"
                  by (simp_all add: zero_Manifest_def)
                then show thesis
                  using sg Inl ref dst arch yaml yd pcs cw2 cw5 cw6 cw6 cw8 noerr
                  by (intro assembly_failed[of e ref dst pcs "[c5, c6] @ [] @ [c8]"])
                    (simp_all add: c1_def c2_def c5_def c6_def c8_def)
              next
                case cd: (Inr cd)
                define r9 where "r9 = (case fetch_index_error E w8 dst (Reference dst) of
                    Some err \<Rightarrow> Inl err | None \<Rightarrow> Inr (indexes w8 (Reference dst)))"
                define c9 where "c9 = Call_GetIndex dst (Reference dst) r9"
                define w9 where "w9 = record_call c9 w8"
                have s9: "GetIndex E dst (Reference dst) w8 = (r9, w9)"
                  by (simp add: GetIndex_def r9_def c9_def w9_def Let_def)
                have cw9: "calls w9 = calls w8 @ [c9]" "indexes w9 = indexes w"
                  using cw8 by (simp_all add: w9_def record_call_def)
                show thesis
                proof (cases r9)
                  case (Inl e)
                  with run s1 s2 s4 s5 s6 ref dst arch ls yaml yd sg s8 cd s9 have "res = Some e" "w' = w9"
                    by (simp_all add: zero_Manifest_def)
                  then show thesis
                    using sg Inl ref dst arch yaml yd cd pcs cw2 cw5 cw6 cw6 cw8 cw9 noerr
                    by (intro assembly_failed[of e ref dst pcs "[c5, c6] @ [] @ [c8, c9]"])
                      (simp_all add: c1_def c2_def c5_def c6_def c8_def c9_def)
                next
                  case idx: (Inr idx)
                  then have idx_eq: "idx = indexes w (Reference dst)"
                    using cw8 by (simp add: r9_def split: option.splits)
                  define m where "m = \<lparr>SchemaVersion = 2, Config = cd,
                      Layers = ds @ [yd\<lparr>Annotations := [AnnotationTitle E \<mapsto> BundleYAML E]\<rparr>],
                      ManifestAnnotations = manifestAnnotationsFromMetadata E ?md\<rparr>"
                  define r10 where "r10 = push_manifest E w9 m (MediaTypeImageManifest E) dst"
                  define c10 where "c10 = Call_ToOCIRemote m (MediaTypeImageManifest E) dst r10"
                  define w10 where "w10 = record_call c10 w9"
                  have s10: "ToOCIRemote E m (MediaTypeImageManifest E) dst w9 = (r10, w10)"
                    by (simp add: ToOCIRemote_def r10_def c10_def w10_def Let_def)
                  have cw10: "calls w10 = calls w9 @ [c10]" "indexes w10 = indexes w"
                    using cw9 by (simp_all add: w10_def record_call_def)
                  show thesis
                  proof (cases r10)
                    case (Inl e)
                    with run s1 s2 s4 s5 s6 ref dst arch ls yaml yd sg s8 cd s9 idx s10[unfolded m_def] have "res = Some e" "w' = w10"
                      by (simp_all add: zero_Manifest_def)
                    then show thesis
                      using sg Inl ref dst arch yaml yd cd idx idx_eq pcs ds cw2 cw5 cw6 cw6 cw8 cw9 cw10 noerr
                      by (intro manifest_pushed[of ref dst pcs yaml yd "[]" cd idx m "Inl e" "[]" ds "[]"])
                        (simp_all add: c1_def c2_def c5_def c6_def c8_def c9_def c10_def m_def)
                  next
                    case d: (Inr d)
                    obtain ures w11 where s11: "UpdateIndex E idx dst ?b d w10 = (ures, w11)"
                      by (cases "UpdateIndex E idx dst ?b d w10")
                    have cw11: "calls w11 = calls w10 @ [Call_UpdateIndex idx dst ?b d ures]"
                      "indexes w11 = (case ures of
                           None \<Rightarrow> (indexes w)(Reference dst \<mapsto>
                             upsert (index_platform E dst ?b) d (index_entries idx))
                         | Some _ \<Rightarrow> indexes w)"
                      using s11 cw10 by (auto simp: UpdateIndex_def record_call_def Let_def split: option.splits)
                    from run s1 s2 s4 s5 s6 ref dst arch ls yaml yd sg s8 cd s9 idx s10[unfolded m_def] d s11 have "res = ures" "w' = w11"
                      by (cases ures; simp add: zero_Manifest_def)+
                    then show thesis
                      using sg d ref dst arch yaml yd cd idx idx_eq pcs ds cw2 cw5 cw6 cw6 cw8 cw9 cw10 cw11 noerr
                      by (intro manifest_pushed[of ref dst pcs yaml yd "[]" cd idx m "Inr d"
                            "[Call_UpdateIndex idx dst ?b d ures]" ds "[]"])
                        (simp_all add: c1_def c2_def c5_def c6_def c8_def c9_def c10_def m_def)
                  qed
                qed
              qed
              next
                case sg: False
                define r7 where "r7 = push_layer E w6 dst signature (ZarfLayerMediaTypeBlob E)"
                define c7 where "c7 = Call_PushLayer dst signature (ZarfLayerMediaTypeBlob E) r7"
                define w7 where "w7 = record_call c7 w6"
                have s7: "PushLayer E dst signature (ZarfLayerMediaTypeBlob E) w6 = (r7, w7)"
                  by (simp add: PushLayer_def r7_def c7_def w7_def Let_def)
                have cw7: "calls w7 = calls w6 @ [c7]" "indexes w7 = indexes w"
                  using cw6 by (simp_all add: w7_def record_call_def)
                show thesis
                proof (cases r7)
                  case (Inl e)
                  with run s1 s2 s4 s5 s6 s7 ref dst arch ls yaml yd sg have "res = Some e" "w' = w7"
                    by (simp_all add: zero_Manifest_def)
                  then show thesis
                    using Inl ref dst arch yaml yd pcs cw5 cw6 cw7 noerr
                    by (intro assembly_failed[of e ref dst pcs "[c5, c6, c7]"])
                      (simp_all add: c1_def c2_def c5_def c6_def c7_def)
                next
                  case sd: (Inr sd)

              define r8 where "r8 = push_config E w7 dst ?md (Build ?b)"
              define c8 where "c8 = Call_pushManifestConfigFromMetadata dst ?md (Build ?b) r8"
              define w8 where "w8 = record_call c8 w7"
              have s8: "pushManifestConfigFromMetadata E dst ?md (Build ?b) w7 = (r8, w8)"
                by (simp add: pushManifestConfigFromMetadata_def r8_def c8_def w8_def Let_def)
              have cw8: "calls w8 = calls w7 @ [c8]" "indexes w8 = indexes w"
                using cw7 by (simp_all add: w8_def record_call_def)
              show thesis
              proof (cases r8)
                case (Inl e)
                with run s1 s2 s4 s5 s6 s7 ref dst arch ls yaml yd sg sd s8 have "res = Some e" "w' = w8"
                  by (simp_all add: zero_Manifest_def)
                then show thesis
                  using sg sd Inl ref dst arch yaml yd pcs cw2 cw5 cw6 cw7 cw8 noerr
                  by (intro assembly_failed[of e ref dst pcs "[c5, c6] @ [c7] @ [c8]"])
                    (simp_all add: c1_def c2_def c5_def c6_def c7_def c8_def)
              next
                case cd: (Inr cd)
                define r9 where "r9 = (case fetch_index_error E w8 dst (Reference dst) of
                    Some err \<Rightarrow> Inl err | None \<Rightarrow> Inr (indexes w8 (Reference dst)))"
                define c9 where "c9 = Call_GetIndex dst (Reference dst) r9"
                define w9 where "w9 = record_call c9 w8"
                have s9: "GetIndex E dst (Reference dst) w8 = (r9, w9)"
                  by (simp add: GetIndex_def r9_def c9_def w9_def Let_def)
                have cw9: "calls w9 = calls w8 @ [c9]" "indexes w9 = indexes w"
                  using cw8 by (simp_all add: w9_def record_call_def)
                show thesis
                proof (cases r9)
                  case (Inl e)
                  with run s1 s2 s4 s5 s6 s7 ref dst arch ls yaml yd sg sd s8 cd s9 have "res = Some e" "w' = w9"
                    by (simp_all add: zero_Manifest_def)
                  then show thesis
                    using sg sd Inl ref dst arch yaml yd cd pcs cw2 cw5 cw6 cw7 cw8 cw9 noerr
                    by (intro assembly_failed[of e ref dst pcs "[c5, c6] @ [c7] @ [c8, c9]"])
                      (simp_all add: c1_def c2_def c5_def c6_def c7_def c8_def c9_def)
                next
                  case idx: (Inr idx)
                  then have idx_eq: "idx = indexes w (Reference dst)"
                    using cw8 by (simp add: r9_def split: option.splits)
                  define m where "m = \<lparr>SchemaVersion = 2, Config = cd,
                      Layers = ds @ [yd\<lparr>Annotations := [AnnotationTitle E \<mapsto> BundleYAML E]\<rparr>, sd\<lparr>Annotations := [AnnotationTitle E \<mapsto> BundleYAMLSignature E]\<rparr>],
                      ManifestAnnotations = manifestAnnotationsFromMetadata E ?md\<rparr>"
                  define r10 where "r10 = push_manifest E w9 m (MediaTypeImageManifest E) dst"
                  define c10 where "c10 = Call_ToOCIRemote m (MediaTypeImageManifest E) dst r10"
                  define w10 where "w10 = record_call c10 w9"
                  have s10: "ToOCIRemote E m (MediaTypeImageManifest E) dst w9 = (r10, w10)"
                    by (simp add: ToOCIRemote_def r10_def c10_def w10_def Let_def)
                  have cw10: "calls w10 = calls w9 @ [c10]" "indexes w10 = indexes w"
                    using cw9 by (simp_all add: w10_def record_call_def)
                  show thesis
                  proof (cases r10)
                    case (Inl e)
                    with run s1 s2 s4 s5 s6 s7 ref dst arch ls yaml yd sg sd s8 cd s9 idx s10[unfolded m_def] have "res = Some e" "w' = w10"
                      by (simp_all add: zero_Manifest_def)
                    then show thesis
                      using sg sd Inl ref dst arch yaml yd cd idx idx_eq pcs ds cw2 cw5 cw6 cw7 cw8 cw9 cw10 noerr
                      by (intro manifest_pushed[of ref dst pcs yaml yd "[c7]" cd idx m "Inl e" "[]" ds "[sd\<lparr>Annotations := [AnnotationTitle E \<mapsto> BundleYAMLSignature E]\<rparr>]"])
                        (simp_all add: c1_def c2_def c5_def c6_def c7_def c8_def c9_def c10_def m_def)
                  next
                    case d: (Inr d)
                    obtain ures w11 where s11: "UpdateIndex E idx dst ?b d w10 = (ures, w11)"
                      by (cases "UpdateIndex E idx dst ?b d w10")
                    have cw11: "calls w11 = calls w10 @ [Call_UpdateIndex idx dst ?b d ures]"
                      "indexes w11 = (case ures of
                           None \<Rightarrow> (indexes w)(Reference dst \<mapsto>
                             upsert (index_platform E dst ?b) d (index_entries idx))
                         | Some _ \<Rightarrow> indexes w)"
                      using s11 cw10 by (auto simp: UpdateIndex_def record_call_def Let_def split: option.splits)
                    from run s1 s2 s4 s5 s6 s7 ref dst arch ls yaml yd sg sd s8 cd s9 idx s10[unfolded m_def] d s11 have "res = ures" "w' = w11"
                      by (cases ures; simp add: zero_Manifest_def)+
                    then show thesis
                      using sg sd d ref dst arch yaml yd cd idx idx_eq pcs ds cw2 cw5 cw6 cw7 cw8 cw9 cw10 cw11 noerr
                      by (intro manifest_pushed[of ref dst pcs yaml yd "[c7]" cd idx m "Inr d"
                            "[Call_UpdateIndex idx dst ?b d ures]" ds "[sd\<lparr>Annotations := [AnnotationTitle E \<mapsto> BundleYAMLSignature E]\<rparr>]"])
                        (simp_all add: c1_def c2_def c5_def c6_def c7_def c8_def c9_def c10_def m_def)
                  qed
                qed
              qed
                qed
              qed
            qed
          qed
        qed
      qed
    qed
  qed
qed

lemma create_run:
  "create E r signature w =
     (returned E r signature w, receiver_after E r signature w, world_after E r signature w)"
  by (simp add: returned_def receiver_after_def world_after_def)

lemmas eval_defs = returned_def receiver_after_def world_after_def calls_made_def create_def
  step_defs Let_def example_env_def failing_env_def unresolved_env_def example_bundle_def
  example_receiver_def no_arch_receiver_def example_world_def indexed_world_def old_root_def
  EnsureOCIPrefix_def OCIURLPrefix_def zero_Manifest_def zero_Descriptor_def index_entries_def

lemma map_filter_simps' [simp]:
  "List.map_filter f [] = []"
  "List.map_filter f (x # xs) = (case f x of None \<Rightarrow> List.map_filter f xs | Some y \<Rightarrow> y # List.map_filter f xs)"
  "List.map_filter f (xs @ ys) = List.map_filter f xs @ List.map_filter f ys"
  by (auto simp: List.map_filter_def split: option.splits)

lemma package_calls_no_location:
  "\<forall>c \<in> set cs. is_package_call p c \<Longrightarrow> resolved_locations cs = []"
  by (induction cs) (auto simp: resolved_locations_def elim: is_package_call.elims)

lemma assembly_calls_no_location:
  "\<forall>c \<in> set cs. is_assembly_call c \<Longrightarrow> resolved_locations cs = []"
  by (induction cs) (auto simp: resolved_locations_def elim: is_assembly_call.elims)

subsection \<open>The receiver\<close>

text \<open>
  Claim C10. \<open>create\<close> writes to its receiver: whatever the outcome, the
  receiver it leaves is the one it was given with \<open>output\<close> overwritten by
  \<open>EnsureOCIPrefix\<close> of the old \<open>output\<close>, so the stored string starts with the
  OCI scheme; the bundle (and so its package list) and \<open>tmpDstDir\<close> are as
  before.
\<close>

theorem create_receiver:
  "receiver_after E r signature w = r\<lparr>r_output := EnsureOCIPrefix (r_output r)\<rparr> \<and>
   prefix OCIURLPrefix (r_output (receiver_after E r signature w)) \<and>
   r_bundle (receiver_after E r signature w) = r_bundle r \<and>
   r_tmpDstDir (receiver_after E r signature w) = r_tmpDstDir r"
proof -
  have "receiver_after E r signature w = r\<lparr>r_output := EnsureOCIPrefix (r_output r)\<rparr>"
    by (simp add: receiver_after_def create_def Let_def split: prod.splits sum.splits option.splits)
  then show ?thesis by (simp add: EnsureOCIPrefix_def)
qed

subsection \<open>The location handed to reference resolution\<close>

text \<open>
  Claim C8. In every run, \<open>referenceFromMetadata\<close> is called exactly once, and
  the location it is given is \<open>EnsureOCIPrefix\<close> of the receiver's \<open>output\<close>,
  which starts with the OCI scheme whether or not \<open>output\<close> did.
\<close>

theorem create_resolves_oci_location:
  "resolved_locations (calls_made E r signature w) = [EnsureOCIPrefix (r_output r)] \<and>
   prefix OCIURLPrefix (EnsureOCIPrefix (r_output r))"
proof -
  have "resolved_locations (calls_made E r signature w) = [EnsureOCIPrefix (r_output r)]"
    using create_run[of E r signature w]
  proof (cases rule: create_cases)
    case (manifest_pushed ref dst pcs ds yaml yd sigcs sl cd idx m mres tail)
    from manifest_pushed(10) have "tail = [] \<or> (\<exists>d u. tail = [Call_UpdateIndex idx dst (r_bundle r) d u])"
      by (auto split: sum.splits)
    moreover from manifest_pushed(7) have "resolved_locations sigcs = []"
      by (auto simp: resolved_locations_def)
    ultimately show ?thesis
      using manifest_pushed(2,3) package_calls_no_location[of pcs]
      by (auto simp: calls_made_def resolved_locations_def)
  qed (auto simp: calls_made_def resolved_locations_def
        dest: package_calls_no_location assembly_calls_no_location)
  then show ?thesis by (simp add: EnsureOCIPrefix_def)
qed

subsection \<open>A bundle without architecture\<close>

text \<open>
  The architecture is checked after the reference has been resolved and the
  destination client has been bound. In the example registry, a bundle with an
  empty architecture makes \<open>create\<close> resolve the reference and bind a client
  before it returns; and where the reference cannot be resolved, the error
  returned is the resolver's, not the one about the architecture.
\<close>

theorem empty_architecture_binds_client:
  "Architecture (Metadata (r_bundle no_arch_receiver)) = [] \<and>
   calls_made example_env no_arch_receiver [] example_world =
     [Call_referenceFromMetadata ''oci://reg''
        \<lparr>Name = ''core'', Version = ''1'', Architecture = []\<rparr> (Inr ''oci://reg/core:1''),
      Call_NewOrasRemote ''oci://reg/core:1''
        \<lparr>PlatformArchitecture = ''amd64'', OS = ''multi''\<rparr>
        (Inr \<lparr>Reference = ''oci://reg/core:1''\<rparr>)] \<and>
   returned unresolved_env no_arch_receiver [] example_world =
     Some (Failure ''version is required'')"
  by (simp add: eval_defs)

text \<open>
  Claim C2, as amended. For a bundle whose architecture is empty, \<open>create\<close>
  returns an error after at most two calls, the resolution of the reference
  and the bind of the destination client: the error of the resolution if it
  fails, the error of the bind if that fails, and otherwise the error
  \<open>architecture is required for bundling\<close>. Nothing is fetched, nothing is
  pushed, and the stored indexes are as before.
\<close>

theorem empty_architecture_stops_early:
  assumes "Architecture (Metadata (r_bundle r)) = []"
  shows "indexes (world_after E r signature w) = indexes w \<and>
    ((\<exists>e. returned E r signature w = Some e \<and>
        calls_made E r signature w =
          [Call_referenceFromMetadata (EnsureOCIPrefix (r_output r)) (Metadata (r_bundle r))
             (Inl e)]) \<or>
     (\<exists>ref e. returned E r signature w = Some e \<and>
        calls_made E r signature w =
          [Call_referenceFromMetadata (EnsureOCIPrefix (r_output r)) (Metadata (r_bundle r))
             (Inr ref),
           Call_NewOrasRemote ref \<lparr>PlatformArchitecture = GetArch E, OS = MultiOS E\<rparr> (Inl e)]) \<or>
     (\<exists>ref dst. returned E r signature w = Some (Errorf ''architecture is required for bundling'') \<and>
        calls_made E r signature w =
          [Call_referenceFromMetadata (EnsureOCIPrefix (r_output r)) (Metadata (r_bundle r))
             (Inr ref),
           Call_NewOrasRemote ref \<lparr>PlatformArchitecture = GetArch E, OS = MultiOS E\<rparr>
             (Inr dst)]))"
  using create_run[of E r signature w] assms
  by (cases rule: create_cases) (simp_all add: calls_made_def)

theorem empty_architecture_stops_early_witness:
  "Architecture (Metadata (r_bundle no_arch_receiver)) = [] \<and>
   indexes (world_after example_env no_arch_receiver [] example_world) = indexes example_world \<and>
   returned example_env no_arch_receiver [] example_world =
     Some (Errorf ''architecture is required for bundling'') \<and>
   length (calls_made example_env no_arch_receiver [] example_world) = 2"
proof -
  have h: "Architecture (Metadata (r_bundle no_arch_receiver)) = []"
    by (simp add: no_arch_receiver_def example_receiver_def)
  show ?thesis
    using h empty_architecture_stops_early[OF h, of example_env "[]" example_world]
    by (simp add: eval_defs)
qed

subsection \<open>A failure in the package loop\<close>

lemma package_step_error_call_error:
  "package_step_error c = Some e \<Longrightarrow> call_error c = Some e"
  by (erule package_step_error.elims) auto

lemma first_error_None: "first_error cs = None \<Longrightarrow> c \<in> set cs \<Longrightarrow> call_error c = None"
  by (induction cs) (auto split: option.splits)

lemma fail_fast_failed_last:
  "fail_fast cs \<Longrightarrow> c \<in> set cs \<Longrightarrow> call_error c = Some e \<Longrightarrow>
     last cs = c \<and> first_error cs = Some e \<and> (\<forall>c' \<in> set (butlast cs). call_error c' = None)"
proof (induction cs)
  case Nil
  then show ?case by simp
next
  case (Cons a cs)
  show ?case
  proof (cases "call_error a")
    case None
    with Cons.prems have "fail_fast cs" "c \<in> set cs" by auto
    with Cons.IH Cons.prems(3)
    have "last cs = c" "first_error cs = Some e" "\<forall>c' \<in> set (butlast cs). call_error c' = None"
      by simp_all
    moreover from \<open>c \<in> set cs\<close> have "cs \<noteq> []" by auto
    ultimately show ?thesis using None by simp
  next
    case (Some e')
    with Cons.prems have "cs = []" by simp
    with Cons.prems show ?thesis by simp
  qed
qed

lemma package_calls_no_bundle_push:
  "\<forall>c \<in> set cs. is_package_call p c \<Longrightarrow> filter is_bundle_push cs = []"
  by (induction cs) (auto elim: is_package_call.elims)

lemma assembly_call_no_package_step_error:
  "is_assembly_call c \<Longrightarrow> package_step_error c = None"
  by (erule is_assembly_call.elims) auto

text \<open>
  Claim C3. If a bind of a client, a fetch of a source root manifest or a push
  of a package fails with an error, \<open>create\<close> returns that error and the
  failed call is the last call of the run, so nothing is fetched or pushed for
  a later package; every call before it succeeded; no blob layer, config, root
  manifest or index is pushed; and the stored indexes are as before.
\<close>

theorem package_failure_aborts:
  assumes "c \<in> set (calls_made E r signature w)" and "package_step_error c = Some e"
  shows "returned E r signature w = Some e \<and>
    last (calls_made E r signature w) = c \<and>
    filter is_bundle_push (calls_made E r signature w) = [] \<and>
    (\<forall>c' \<in> set (butlast (calls_made E r signature w)). call_error c' = None) \<and>
    indexes (world_after E r signature w) = indexes w"
  using create_run[of E r signature w]
proof (cases rule: create_cases)
  case (reference_failed e')
  with assms show ?thesis by (auto simp: calls_made_def)
next
  case (bind_failed ref e')
  with assms show ?thesis by (auto simp: calls_made_def)
next
  case (no_architecture ref dst)
  with assms show ?thesis by (auto simp: calls_made_def)
next
  case (package_failed ref dst pcs e')
  from assms package_failed(3) have c: "c \<in> set pcs"
    by (auto simp: calls_made_def)
  from fail_fast_failed_last[OF package_failed(5) c package_step_error_call_error[OF assms(2)]]
  have l: "last pcs = c" "first_error pcs = Some e" "\<forall>c' \<in> set (butlast pcs). call_error c' = None"
    by auto
  from c have ne: "pcs \<noteq> []" by auto
  show ?thesis
    using package_failed l ne package_calls_no_bundle_push[OF package_failed(4)]
    by (auto simp: calls_made_def butlast_append)
next
  case (assembly_failed ref dst pcs acs e')
  from assms assembly_failed(3) have "c \<in> set pcs \<or> c \<in> set acs"
    by (auto simp: calls_made_def)
  then have False
  proof
    assume "c \<in> set pcs"
    from first_error_None[OF assembly_failed(5) this] assms(2) show False
      by (auto dest: package_step_error_call_error)
  next
    assume "c \<in> set acs"
    with assembly_failed(6) have "is_assembly_call c" by blast
    from assembly_call_no_package_step_error[OF this] assms(2) show False by simp
  qed
  then show ?thesis ..
next
  case (manifest_pushed ref dst pcs ds yaml yd sigcs sl cd idx m mres tail)
  from manifest_pushed(10) have tail: "\<forall>c' \<in> set tail. package_step_error c' = None"
    by (auto split: sum.splits)
  from manifest_pushed(7) have sigcs: "\<forall>c' \<in> set sigcs. package_step_error c' = None"
    by auto
  from assms manifest_pushed(2) tail sigcs have "c \<in> set pcs"
    by (auto simp: calls_made_def)
  from first_error_None[OF manifest_pushed(4) this] assms(2) have False
    by (auto dest: package_step_error_call_error)
  then show ?thesis ..
qed

theorem package_failure_aborts_witness:
  "last (calls_made failing_env example_receiver [7] example_world)
     \<in> set (calls_made failing_env example_receiver [7] example_world) \<and>
   package_step_error (last (calls_made failing_env example_receiver [7] example_world))
     = Some (Failure ''push refused'') \<and>
   returned failing_env example_receiver [7] example_world = Some (Failure ''push refused'') \<and>
   filter is_bundle_push (calls_made failing_env example_receiver [7] example_world) = [] \<and>
   indexes (world_after failing_env example_receiver [7] example_world) = indexes example_world"
proof -
  have h1: "last (calls_made failing_env example_receiver [7] example_world)
     \<in> set (calls_made failing_env example_receiver [7] example_world)"
    by (simp add: eval_defs)
  have h2: "package_step_error (last (calls_made failing_env example_receiver [7] example_world))
     = Some (Failure ''push refused'')"
    by (simp add: eval_defs)
  show ?thesis
    using h1 h2 package_failure_aborts[OF h1 h2] by simp
qed

subsection \<open>Runs that push the root manifest\<close>

lemma package_calls_no_manifest:
  "\<forall>c \<in> set cs. is_package_call p c \<Longrightarrow> pushed_manifests cs = []"
  by (induction cs) (auto simp: pushed_manifests_def elim: is_package_call.elims)

lemma assembly_calls_no_manifest:
  "\<forall>c \<in> set cs. is_assembly_call c \<Longrightarrow> pushed_manifests cs = []"
  by (induction cs) (auto simp: pushed_manifests_def elim: is_assembly_call.elims)

lemma package_call_manifest_push: "is_package_call p c \<Longrightarrow> manifest_push c = None"
  by (cases c) simp_all

lemma manifest_run [consumes 1, case_names run]:
  assumes "pushed_manifests (calls_made E r signature w) \<noteq> []"
  obtains ref dst pcs ds yaml yd sigcs sl cd idx m mres tail where
      "Architecture (Metadata (r_bundle r)) \<noteq> []"
      "calls_made E r signature w =
         [Call_referenceFromMetadata (EnsureOCIPrefix (r_output r)) (Metadata (r_bundle r)) (Inr ref),
          Call_NewOrasRemote ref \<lparr>PlatformArchitecture = GetArch E, OS = MultiOS E\<rparr> (Inr dst)]
         @ pcs @
         [Call_Marshal (r_bundle r) (Inr yaml),
          Call_PushLayer dst yaml (ZarfLayerMediaTypeBlob E) (Inr yd)]
         @ sigcs @
         [Call_pushManifestConfigFromMetadata dst (Metadata (r_bundle r)) (Build (r_bundle r)) (Inr cd),
          Call_GetIndex dst (Reference dst) (Inr idx),
          Call_ToOCIRemote m (MediaTypeImageManifest E) dst mres]
         @ tail"
      "\<forall>c \<in> set pcs. is_package_call \<lparr>PlatformArchitecture = GetArch E, OS = MultiOS E\<rparr> c"
      "first_error pcs = None"
      "length ds = length (Packages (r_bundle r))"
      "pushed_packages pcs = enumerate 0 (zip (Packages (r_bundle r)) ds)"
      "signature = [] \<and> sigcs = [] \<and> sl = [] \<or>
       (\<exists>sd. signature \<noteq> [] \<and>
          sigcs = [Call_PushLayer dst signature (ZarfLayerMediaTypeBlob E) (Inr sd)] \<and>
          sl = [sd\<lparr>Annotations := [AnnotationTitle E \<mapsto> BundleYAMLSignature E]\<rparr>])"
      "m = \<lparr>SchemaVersion = 2, Config = cd,
            Layers = ds @ [yd\<lparr>Annotations := [AnnotationTitle E \<mapsto> BundleYAML E]\<rparr>] @ sl,
            ManifestAnnotations = manifestAnnotationsFromMetadata E (Metadata (r_bundle r))\<rparr>"
      "idx = indexes w (Reference dst)"
      "case mres of
         Inl e \<Rightarrow> returned E r signature w = Some e \<and> tail = [] \<and>
           indexes (world_after E r signature w) = indexes w
       | Inr d \<Rightarrow>
           (\<exists>ures. tail = [Call_UpdateIndex idx dst (r_bundle r) d ures] \<and>
              returned E r signature w = ures \<and>
              indexes (world_after E r signature w) =
                (case ures of
                   None \<Rightarrow> (indexes w)(Reference dst \<mapsto>
                             upsert (index_platform E dst (r_bundle r)) d (index_entries idx))
                 | Some _ \<Rightarrow> indexes w))"
  using create_run[of E r signature w]
proof (cases rule: create_cases)
  case (reference_failed e)
  with assms show ?thesis by (simp add: calls_made_def pushed_manifests_def)
next
  case (bind_failed ref e)
  with assms show ?thesis by (simp add: calls_made_def pushed_manifests_def)
next
  case (no_architecture ref dst)
  with assms show ?thesis by (simp add: calls_made_def pushed_manifests_def)
next
  case (package_failed ref dst pcs e)
  from package_failed(3) package_calls_no_manifest[OF package_failed(4)]
  have "pushed_manifests (calls_made E r signature w) = []"
    by (simp add: calls_made_def pushed_manifests_def)
  with assms show ?thesis by simp
next
  case (assembly_failed ref dst pcs acs e)
  from assembly_failed(3) package_calls_no_manifest[OF assembly_failed(4)]
    assembly_calls_no_manifest[OF assembly_failed(6)]
  have "pushed_manifests (calls_made E r signature w) = []"
    by (simp add: calls_made_def pushed_manifests_def)
  with assms show ?thesis by simp
next
  case (manifest_pushed ref dst pcs ds yaml yd sigcs sl cd idx m mres tail)
  from manifest_pushed(2)
  have "calls_made E r signature w =
         [Call_referenceFromMetadata (EnsureOCIPrefix (r_output r)) (Metadata (r_bundle r)) (Inr ref),
          Call_NewOrasRemote ref \<lparr>PlatformArchitecture = GetArch E, OS = MultiOS E\<rparr> (Inr dst)]
         @ pcs @
         [Call_Marshal (r_bundle r) (Inr yaml),
          Call_PushLayer dst yaml (ZarfLayerMediaTypeBlob E) (Inr yd)]
         @ sigcs @
         [Call_pushManifestConfigFromMetadata dst (Metadata (r_bundle r)) (Build (r_bundle r)) (Inr cd),
          Call_GetIndex dst (Reference dst) (Inr idx),
          Call_ToOCIRemote m (MediaTypeImageManifest E) dst mres]
         @ tail"
    by (simp add: calls_made_def)
  then show ?thesis
    by (rule that[OF manifest_pushed(1) _ manifest_pushed(3-10)])
qed

lemma successful_run:
  assumes "returned E r signature w = None"
  shows "pushed_manifests (calls_made E r signature w) \<noteq> []"
  using create_run[of E r signature w]
proof (cases rule: create_cases)
  case (manifest_pushed ref dst pcs ds yaml yd sigcs sl cd idx m mres tail)
  then show ?thesis by (simp add: calls_made_def pushed_manifests_def)
qed (use assms in simp_all)

lemma manifest_run_tail:
  assumes "case mres of
         Inl e \<Rightarrow> returned E r signature w = Some e \<and> tail = [] \<and>
           indexes (world_after E r signature w) = indexes w
       | Inr d \<Rightarrow>
           (\<exists>ures. tail = [Call_UpdateIndex idx dst (r_bundle r) d ures] \<and>
              returned E r signature w = ures \<and>
              indexes (world_after E r signature w) =
                (case ures of
                   None \<Rightarrow> (indexes w)(Reference dst \<mapsto>
                             upsert (index_platform E dst (r_bundle r)) d (index_entries idx))
                 | Some _ \<Rightarrow> indexes w))"
  shows "pushed_manifests tail = [] \<and> pushed_packages tail = []"
  using assms by (auto simp: pushed_manifests_def split: sum.splits)

lemma manifest_run_sig:
  assumes "signature = [] \<and> sigcs = [] \<and> sl = [] \<or>
       (\<exists>sd. signature \<noteq> [] \<and>
          sigcs = [Call_PushLayer dst signature (ZarfLayerMediaTypeBlob E) (Inr sd)] \<and>
          sl = [sd\<lparr>Annotations := [AnnotationTitle E \<mapsto> BundleYAMLSignature E]\<rparr>])"
  shows "pushed_manifests sigcs = [] \<and> pushed_packages sigcs = [] \<and>
    (\<forall>c \<in> set sigcs. manifest_push c = None)"
  using assms by (auto simp: pushed_manifests_def)

subsection \<open>The layers of the root manifest\<close>

text \<open>
  Claim C1. Whenever \<open>create\<close> pushes a root manifest, it pushes one only, and
  with \<open>N\<close> the number of packages of the bundle its layers are: the \<open>N\<close>
  descriptors that the package pushes returned, in the order of the pushes,
  which were made for the packages in declaration order with loop indices
  \<open>0\<close> to \<open>N - 1\<close>; then the descriptor of the pushed bundle metadata; then, if
  and only if the signature is not empty, the descriptor of the pushed
  signature. So there are \<open>N + 2\<close> layers with a signature and \<open>N + 1\<close>
  without.
\<close>

theorem root_manifest_layers:
  assumes "m \<in> set (pushed_manifests (calls_made E r signature w))"
  shows "\<exists>ds yaml yd dst.
    pushed_manifests (calls_made E r signature w) = [m] \<and>
    length ds = length (Packages (r_bundle r)) \<and>
    pushed_packages (calls_made E r signature w) = enumerate 0 (zip (Packages (r_bundle r)) ds) \<and>
    Call_Marshal (r_bundle r) (Inr yaml) \<in> set (calls_made E r signature w) \<and>
    Call_PushLayer dst yaml (ZarfLayerMediaTypeBlob E) (Inr yd) \<in> set (calls_made E r signature w) \<and>
    (if signature = []
     then Layers m = ds @ [yd\<lparr>Annotations := [AnnotationTitle E \<mapsto> BundleYAML E]\<rparr>]
     else (\<exists>sd. Call_PushLayer dst signature (ZarfLayerMediaTypeBlob E) (Inr sd)
                  \<in> set (calls_made E r signature w) \<and>
             Layers m = ds @ [yd\<lparr>Annotations := [AnnotationTitle E \<mapsto> BundleYAML E]\<rparr>,
                              sd\<lparr>Annotations := [AnnotationTitle E \<mapsto> BundleYAMLSignature E]\<rparr>])) \<and>
    length (Layers m) = length (Packages (r_bundle r)) + (if signature = [] then 1 else 2)"
proof -
  from assms have "pushed_manifests (calls_made E r signature w) \<noteq> []" by auto
  then show ?thesis
  proof (cases rule: manifest_run)
    case (run ref dst pcs ds yaml yd sigcs sl cd idx m' mres tail)
    note tl = manifest_run_tail[OF run(10)]
    note sg = manifest_run_sig[OF run(7)]
    have pm: "pushed_manifests (calls_made E r signature w) = [m']"
      using run(2) tl sg package_calls_no_manifest[OF run(3)]
      by (simp add: pushed_manifests_def)
    with assms have m: "m = m'" by simp
    have pp: "pushed_packages (calls_made E r signature w)
        = enumerate 0 (zip (Packages (r_bundle r)) ds)"
      using run(2,6) tl sg by simp
    have in1: "Call_Marshal (r_bundle r) (Inr yaml) \<in> set (calls_made E r signature w)"
      and in2: "Call_PushLayer dst yaml (ZarfLayerMediaTypeBlob E) (Inr yd)
         \<in> set (calls_made E r signature w)"
      using run(2) by simp_all
    show ?thesis
    proof (cases "signature = []")
      case True
      with run(7) have "sl = []" by auto
      with True pm pp in1 in2 run(5,8) m show ?thesis
        by (intro exI[of _ ds] exI[of _ yaml] exI[of _ yd] exI[of _ dst]) simp
    next
      case False
      with run(7) obtain sd where sd:
        "sigcs = [Call_PushLayer dst signature (ZarfLayerMediaTypeBlob E) (Inr sd)]"
        "sl = [sd\<lparr>Annotations := [AnnotationTitle E \<mapsto> BundleYAMLSignature E]\<rparr>]"
        by auto
      from run(2) sd(1)
      have in3: "Call_PushLayer dst signature (ZarfLayerMediaTypeBlob E) (Inr sd)
          \<in> set (calls_made E r signature w)"
        by simp
      from False pm pp in1 in2 in3 run(5,8) m sd(2) show ?thesis
        by (intro exI[of _ ds] exI[of _ yaml] exI[of _ yd] exI[of _ dst]) auto
    qed
  qed
qed

theorem root_manifest_layers_witness:
  "hd (pushed_manifests (calls_made example_env example_receiver [7] example_world))
     \<in> set (pushed_manifests (calls_made example_env example_receiver [7] example_world)) \<and>
   length (Packages (r_bundle example_receiver)) = 2 \<and>
   Layers (hd (pushed_manifests (calls_made example_env example_receiver [7] example_world))) =
     [\<lparr>MediaType = ''manifest'', Digest = ''a'', Size = 0, Annotations = Map.empty\<rparr>,
      \<lparr>MediaType = ''manifest'', Digest = ''b'', Size = 1, Annotations = Map.empty\<rparr>,
      \<lparr>MediaType = ''blob'', Digest = ''layer'', Size = 3,
         Annotations = [''title'' \<mapsto> ''uds-bundle.yaml'']\<rparr>,
      \<lparr>MediaType = ''blob'', Digest = ''layer'', Size = 1,
         Annotations = [''title'' \<mapsto> ''uds-bundle.yaml.sig'']\<rparr>] \<and>
   length (Layers (hd (pushed_manifests
     (calls_made example_env example_receiver [7] example_world)))) = 2 + 2"
proof -
  have h: "hd (pushed_manifests (calls_made example_env example_receiver [7] example_world))
     \<in> set (pushed_manifests (calls_made example_env example_receiver [7] example_world))"
    by (simp add: eval_defs pushed_manifests_def)
  have l: "Layers (hd (pushed_manifests (calls_made example_env example_receiver [7] example_world))) =
     [\<lparr>MediaType = ''manifest'', Digest = ''a'', Size = 0, Annotations = Map.empty\<rparr>,
      \<lparr>MediaType = ''manifest'', Digest = ''b'', Size = 1, Annotations = Map.empty\<rparr>,
      \<lparr>MediaType = ''blob'', Digest = ''layer'', Size = 3,
         Annotations = [''title'' \<mapsto> ''uds-bundle.yaml'']\<rparr>,
      \<lparr>MediaType = ''blob'', Digest = ''layer'', Size = 1,
         Annotations = [''title'' \<mapsto> ''uds-bundle.yaml.sig'']\<rparr>]"
    by (simp add: eval_defs pushed_manifests_def)
  have n: "length (Packages (r_bundle example_receiver)) = 2"
    by (simp add: example_receiver_def example_bundle_def)
  from root_manifest_layers[OF h]
  have "length (Layers (hd (pushed_manifests
     (calls_made example_env example_receiver [7] example_world)))) =
     length (Packages (r_bundle example_receiver)) + (if [7::8 word] = [] then 1 else 2)"
    by blast
  with h l n show ?thesis by simp
qed

subsection \<open>The index\<close>

lemma upsert_member: "(p, d) \<in> set (upsert p d ix)"
  by (induction ix) simp_all

lemma upsert_others:
  "filter (\<lambda>e. fst e \<noteq> p) (upsert p d ix) = filter (\<lambda>e. fst e \<noteq> p) ix"
  by (induction ix) simp_all

lemma upsert_count:
  "length (filter (\<lambda>e. fst e = p) (upsert p d ix)) = max 1 (length (filter (\<lambda>e. fst e = p) ix))"
  by (induction ix) simp_all

lemma upsert_keys: "fst ` set (upsert p d ix) = insert p (fst ` set ix)"
  by (induction ix) auto

lemma upsert_distinct: "distinct (map fst ix) \<Longrightarrow> distinct (map fst (upsert p d ix))"
proof (induction ix)
  case Nil
  then show ?case by simp
next
  case (Cons e ix)
  show ?case
  proof (cases "fst e = p")
    case True
    with Cons.prems show ?thesis by simp
  next
    case False
    from Cons have "distinct (map fst (upsert p d ix))" by simp
    moreover from Cons.prems False have "fst e \<notin> fst ` set (upsert p d ix)"
      by (simp add: upsert_keys)
    ultimately show ?thesis using False by simp
  qed
qed

text \<open>
  Claim C4. After a successful run the index stored for the destination
  repository is the index that was fetched with the entry for the current
  platform upserted to the descriptor of the pushed root manifest: that entry
  is in the index; the entries for other platforms are the ones that were
  there, in the same order; an existing entry for the platform is replaced and
  no second one added, so that there is exactly one entry for the platform
  when the fetched index had at most one; and an index with one entry per
  platform stays so.
\<close>

theorem index_entry_upserted:
  assumes "returned E r signature w = None"
  shows "\<exists>m dst d old new p.
     Call_GetIndex dst (Reference dst) (Inr (indexes w (Reference dst)))
       \<in> set (calls_made E r signature w) \<and>
     Call_ToOCIRemote m (MediaTypeImageManifest E) dst (Inr d)
       \<in> set (calls_made E r signature w) \<and>
     p = index_platform E dst (r_bundle r) \<and>
     old = index_entries (indexes w (Reference dst)) \<and>
     new = upsert p d old \<and>
     indexes (world_after E r signature w) = (indexes w)(Reference dst \<mapsto> new) \<and>
     (p, d) \<in> set new \<and>
     filter (\<lambda>e. fst e \<noteq> p) new = filter (\<lambda>e. fst e \<noteq> p) old \<and>
     length (filter (\<lambda>e. fst e = p) new) = max 1 (length (filter (\<lambda>e. fst e = p) old)) \<and>
     (distinct (map fst old) \<longrightarrow> distinct (map fst new))"
  using successful_run[OF assms]
proof (cases rule: manifest_run)
  case (run ref dst pcs ds yaml yd sigcs sl cd idx m mres tail)
  from run(10) assms obtain d where d: "mres = Inr d"
    "indexes (world_after E r signature w) =
       (indexes w)(Reference dst \<mapsto>
          upsert (index_platform E dst (r_bundle r)) d (index_entries idx))"
    by (cases mres) auto
  have in1: "Call_GetIndex dst (Reference dst) (Inr (indexes w (Reference dst)))
       \<in> set (calls_made E r signature w)"
    and in2: "Call_ToOCIRemote m (MediaTypeImageManifest E) dst (Inr d)
       \<in> set (calls_made E r signature w)"
    using run(2,9) d(1) by simp_all
  show ?thesis
    using in1 in2 d(2) run(9)
      upsert_member[of "index_platform E dst (r_bundle r)" d "index_entries (indexes w (Reference dst))"]
      upsert_others[of "index_platform E dst (r_bundle r)" d "index_entries (indexes w (Reference dst))"]
      upsert_count[of "index_platform E dst (r_bundle r)" d "index_entries (indexes w (Reference dst))"]
      upsert_distinct[of "index_entries (indexes w (Reference dst))" "index_platform E dst (r_bundle r)" d]
    by (intro exI[of _ m] exI[of _ dst] exI[of _ d]
        exI[of _ "index_entries (indexes w (Reference dst))"]
        exI[of _ "upsert (index_platform E dst (r_bundle r)) d
                    (index_entries (indexes w (Reference dst)))"]
        exI[of _ "index_platform E dst (r_bundle r)"]) simp
qed

theorem index_entry_upserted_witness:
  "returned example_env example_receiver [] indexed_world = None \<and>
   distinct (map fst (index_entries (indexes indexed_world ''oci://reg/core:1''))) \<and>
   indexes (world_after example_env example_receiver [] indexed_world) ''oci://reg/core:1'' =
     Some [(\<lparr>PlatformArchitecture = ''arm64'', OS = ''multi''\<rparr>, old_root),
           (\<lparr>PlatformArchitecture = ''amd64'', OS = ''multi''\<rparr>,
            \<lparr>MediaType = ''manifest'', Digest = ''root'', Size = 3, Annotations = Map.empty\<rparr>)]"
proof -
  have h: "returned example_env example_receiver [] indexed_world = None"
    by (simp add: eval_defs)
  have d: "distinct (map fst (index_entries (indexes indexed_world ''oci://reg/core:1'')))"
    by (simp add: indexed_world_def index_entries_def)
  have i: "indexes (world_after example_env example_receiver [] indexed_world) ''oci://reg/core:1'' =
     Some [(\<lparr>PlatformArchitecture = ''arm64'', OS = ''multi''\<rparr>, old_root),
           (\<lparr>PlatformArchitecture = ''amd64'', OS = ''multi''\<rparr>,
            \<lparr>MediaType = ''manifest'', Digest = ''root'', Size = 3, Annotations = Map.empty\<rparr>)]"
    by (simp add: eval_defs)
  show ?thesis
    using h d i index_entry_upserted[OF h] by simp
qed

subsection \<open>Pushes come before the root manifest\<close>

lemma pushed_packages_member:
  "x \<in> set (pushed_packages cs) \<Longrightarrow> \<exists>c \<in> set cs. package_push c = Some x"
  by (induction cs) (auto split: option.splits)

lemma package_push_content:
  "package_push c = Some (i, pkg, d) \<Longrightarrow> pushed_content c = Some (content d)"
  by (erule package_push.elims) simp_all

lemma pushed_package_layer:
  assumes "d \<in> set ds" and "length ds = length pkgs"
    and "pushed_packages pcs = enumerate 0 (zip pkgs ds)"
  shows "\<exists>c \<in> set pcs. pushed_content c = Some (content d)"
proof -
  from assms(1) obtain i where i: "i < length ds" "ds ! i = d"
    by (auto simp: in_set_conv_nth)
  with assms(2) have "(i, pkgs ! i, d) \<in> set (enumerate 0 (zip pkgs ds))"
    by (simp add: in_set_enumerate_eq)
  with assms(3) have "(i, pkgs ! i, d) \<in> set (pushed_packages pcs)" by simp
  from pushed_packages_member[OF this] obtain c where "c \<in> set pcs"
    "package_push c = Some (i, pkgs ! i, d)" by blast
  with package_push_content show ?thesis by blast
qed

text \<open>
  Claim C5. In every run, for the root manifest that is pushed, each layer
  descriptor and the config descriptor has the content triple of a descriptor
  returned by a successful push (of a package, a blob layer or the config)
  among the calls made before the push of the root manifest.
\<close>

theorem layers_pushed_before_manifest:
  assumes "m \<in> set (pushed_manifests (calls_made E r signature w))"
    and "d \<in> set (Config m # Layers m)"
  shows "\<exists>c \<in> set (takeWhile (\<lambda>c. manifest_push c = None) (calls_made E r signature w)).
           pushed_content c = Some (content d)"
proof -
  from assms(1) have "pushed_manifests (calls_made E r signature w) \<noteq> []" by auto
  then show ?thesis
  proof (cases rule: manifest_run)
    case (run ref dst pcs ds yaml yd sigcs sl cd idx m' mres tail)
    note tl = manifest_run_tail[OF run(10)]
    note sg = manifest_run_sig[OF run(7)]
    have "pushed_manifests (calls_made E r signature w) = [m']"
      using run(2) tl sg package_calls_no_manifest[OF run(3)]
      by (simp add: pushed_manifests_def)
    with assms(1) have m: "m = m'" by simp
    define pre where "pre =
         [Call_referenceFromMetadata (EnsureOCIPrefix (r_output r)) (Metadata (r_bundle r)) (Inr ref),
          Call_NewOrasRemote ref \<lparr>PlatformArchitecture = GetArch E, OS = MultiOS E\<rparr> (Inr dst)]
         @ pcs @
         [Call_Marshal (r_bundle r) (Inr yaml),
          Call_PushLayer dst yaml (ZarfLayerMediaTypeBlob E) (Inr yd)]
         @ sigcs @
         [Call_pushManifestConfigFromMetadata dst (Metadata (r_bundle r)) (Build (r_bundle r)) (Inr cd),
          Call_GetIndex dst (Reference dst) (Inr idx)]"
    have cs: "calls_made E r signature w =
        pre @ Call_ToOCIRemote m' (MediaTypeImageManifest E) dst mres # tail"
      using run(2) by (simp add: pre_def)
    have "\<forall>c \<in> set pre. manifest_push c = None"
      using sg run(3) by (auto simp: pre_def dest: package_call_manifest_push)
    then have tw: "takeWhile (\<lambda>c. manifest_push c = None) (calls_made E r signature w) = pre"
      unfolding cs by (simp add: takeWhile_append2)
    from assms(2) m run(8)
    consider "d = cd" | "d \<in> set ds"
      | "d = yd\<lparr>Annotations := [AnnotationTitle E \<mapsto> BundleYAML E]\<rparr>" | "d \<in> set sl"
      by auto
    then have "\<exists>c \<in> set pre. pushed_content c = Some (content d)"
    proof cases
      case 1
      then have "pushed_content (Call_pushManifestConfigFromMetadata dst (Metadata (r_bundle r))
          (Build (r_bundle r)) (Inr cd)) = Some (content d)" by simp
      then show ?thesis unfolding pre_def
        by (intro bexI[of _ "Call_pushManifestConfigFromMetadata dst (Metadata (r_bundle r))
          (Build (r_bundle r)) (Inr cd)"]) simp_all
    next
      case 2
      from pushed_package_layer[OF 2 run(5,6)] obtain c where "c \<in> set pcs"
        "pushed_content c = Some (content d)" by blast
      then show ?thesis unfolding pre_def by (intro bexI[of _ c]) simp_all
    next
      case 3
      then have "pushed_content (Call_PushLayer dst yaml (ZarfLayerMediaTypeBlob E) (Inr yd))
          = Some (content d)" by (simp add: content_def)
      then show ?thesis unfolding pre_def
        by (intro bexI[of _ "Call_PushLayer dst yaml (ZarfLayerMediaTypeBlob E) (Inr yd)"]) simp_all
    next
      case 4
      with run(7) obtain sd where sd:
        "sigcs = [Call_PushLayer dst signature (ZarfLayerMediaTypeBlob E) (Inr sd)]"
        "d = sd\<lparr>Annotations := [AnnotationTitle E \<mapsto> BundleYAMLSignature E]\<rparr>"
        by auto
      then have "pushed_content (Call_PushLayer dst signature (ZarfLayerMediaTypeBlob E) (Inr sd))
          = Some (content d)" by (simp add: content_def)
      then show ?thesis unfolding pre_def sd(1)
        by (intro bexI[of _ "Call_PushLayer dst signature (ZarfLayerMediaTypeBlob E) (Inr sd)"])
          simp_all
    qed
    with tw show ?thesis by simp
  qed
qed

theorem layers_pushed_before_manifest_witness:
  "hd (pushed_manifests (calls_made example_env example_receiver [7] example_world))
     \<in> set (pushed_manifests (calls_made example_env example_receiver [7] example_world)) \<and>
   last (Layers (hd (pushed_manifests (calls_made example_env example_receiver [7] example_world))))
     \<in> set (Config (hd (pushed_manifests
               (calls_made example_env example_receiver [7] example_world)))
            # Layers (hd (pushed_manifests
               (calls_made example_env example_receiver [7] example_world)))) \<and>
   (\<exists>c \<in> set (takeWhile (\<lambda>c. manifest_push c = None)
                 (calls_made example_env example_receiver [7] example_world)).
      pushed_content c = Some (content (last (Layers (hd (pushed_manifests
        (calls_made example_env example_receiver [7] example_world)))))))"
proof -
  have h1: "hd (pushed_manifests (calls_made example_env example_receiver [7] example_world))
     \<in> set (pushed_manifests (calls_made example_env example_receiver [7] example_world))"
    by (simp add: eval_defs pushed_manifests_def)
  have h2: "last (Layers (hd (pushed_manifests
              (calls_made example_env example_receiver [7] example_world))))
     \<in> set (Config (hd (pushed_manifests
               (calls_made example_env example_receiver [7] example_world)))
            # Layers (hd (pushed_manifests
               (calls_made example_env example_receiver [7] example_world))))"
    by (simp add: eval_defs pushed_manifests_def)
  from h1 h2 layers_pushed_before_manifest[OF h1 h2] show ?thesis by blast
qed

subsection \<open>The fields of the root manifest\<close>

text \<open>
  Claim C6. In a successful run, the one root manifest pushed has schema
  version 2, its config is the descriptor returned by the push of the config
  made from the bundle's metadata and build data, and its annotations are
  those that \<open>manifestAnnotationsFromMetadata\<close> gives for the bundle's metadata.
\<close>

theorem root_manifest_fields:
  assumes "returned E r signature w = None"
  shows "\<exists>m dst cd d.
    pushed_manifests (calls_made E r signature w) = [m] \<and>
    Call_pushManifestConfigFromMetadata dst (Metadata (r_bundle r)) (Build (r_bundle r)) (Inr cd)
      \<in> set (calls_made E r signature w) \<and>
    Call_ToOCIRemote m (MediaTypeImageManifest E) dst (Inr d) \<in> set (calls_made E r signature w) \<and>
    SchemaVersion m = 2 \<and>
    Config m = cd \<and>
    ManifestAnnotations m = manifestAnnotationsFromMetadata E (Metadata (r_bundle r))"
  using successful_run[OF assms]
proof (cases rule: manifest_run)
  case (run ref dst pcs ds yaml yd sigcs sl cd idx m mres tail)
  note tl = manifest_run_tail[OF run(10)]
  note sg = manifest_run_sig[OF run(7)]
  have pm: "pushed_manifests (calls_made E r signature w) = [m]"
    using run(2) tl sg package_calls_no_manifest[OF run(3)]
    by (simp add: pushed_manifests_def)
  from run(10) assms obtain d where d: "mres = Inr d" by (cases mres) auto
  have in1: "Call_pushManifestConfigFromMetadata dst (Metadata (r_bundle r)) (Build (r_bundle r))
      (Inr cd) \<in> set (calls_made E r signature w)"
    and in2: "Call_ToOCIRemote m (MediaTypeImageManifest E) dst (Inr d)
      \<in> set (calls_made E r signature w)"
    using run(2) d by simp_all
  from pm in1 in2 run(8) show ?thesis
    by (intro exI[of _ m] exI[of _ dst] exI[of _ cd] exI[of _ d]) simp
qed

theorem root_manifest_fields_witness:
  "returned example_env example_receiver [7] example_world = None \<and>
   SchemaVersion (hd (pushed_manifests
     (calls_made example_env example_receiver [7] example_world))) = 2 \<and>
   Config (hd (pushed_manifests (calls_made example_env example_receiver [7] example_world))) =
     \<lparr>MediaType = ''config'', Digest = ''core'', Size = 2, Annotations = Map.empty\<rparr> \<and>
   ManifestAnnotations (hd (pushed_manifests
     (calls_made example_env example_receiver [7] example_world))) = [''title'' \<mapsto> ''core'']"
proof -
  have h: "returned example_env example_receiver [7] example_world = None"
    by (simp add: eval_defs)
  have v: "SchemaVersion (hd (pushed_manifests
      (calls_made example_env example_receiver [7] example_world))) = 2"
    by (simp add: eval_defs pushed_manifests_def)
  have c: "Config (hd (pushed_manifests
      (calls_made example_env example_receiver [7] example_world))) =
     \<lparr>MediaType = ''config'', Digest = ''core'', Size = 2, Annotations = Map.empty\<rparr>"
    by (simp add: eval_defs pushed_manifests_def)
  have a: "ManifestAnnotations (hd (pushed_manifests
      (calls_made example_env example_receiver [7] example_world))) = [''title'' \<mapsto> ''core'']"
    by (simp add: eval_defs pushed_manifests_def)
  show ?thesis
    using h v c a root_manifest_fields[OF h] by simp
qed

subsection \<open>The title annotations\<close>

text \<open>
  Claim C7. In a successful run, the layer after the package layers is the
  descriptor returned by the push of the marshalled bundle with its
  annotations replaced by the single pair of the title annotation and the name
  of the bundle metadata file; and with a signature, the next layer is the
  descriptor returned by the push of the signature with its annotations
  replaced by the pair of the title annotation and the name of the signature
  file.
\<close>

theorem layer_title_annotations:
  assumes "returned E r signature w = None"
  shows "\<exists>m dst yaml yd.
    pushed_manifests (calls_made E r signature w) = [m] \<and>
    Call_Marshal (r_bundle r) (Inr yaml) \<in> set (calls_made E r signature w) \<and>
    Call_PushLayer dst yaml (ZarfLayerMediaTypeBlob E) (Inr yd) \<in> set (calls_made E r signature w) \<and>
    Layers m ! length (Packages (r_bundle r)) =
      yd\<lparr>Annotations := [AnnotationTitle E \<mapsto> BundleYAML E]\<rparr> \<and>
    Annotations (Layers m ! length (Packages (r_bundle r))) = [AnnotationTitle E \<mapsto> BundleYAML E] \<and>
    dom (Annotations (Layers m ! length (Packages (r_bundle r)))) = {AnnotationTitle E} \<and>
    (signature \<noteq> [] \<longrightarrow>
      (\<exists>sd. Call_PushLayer dst signature (ZarfLayerMediaTypeBlob E) (Inr sd)
               \<in> set (calls_made E r signature w) \<and>
         Layers m ! Suc (length (Packages (r_bundle r))) =
           sd\<lparr>Annotations := [AnnotationTitle E \<mapsto> BundleYAMLSignature E]\<rparr> \<and>
         Annotations (Layers m ! Suc (length (Packages (r_bundle r)))) =
           [AnnotationTitle E \<mapsto> BundleYAMLSignature E]))"
  using successful_run[OF assms]
proof (cases rule: manifest_run)
  case (run ref dst pcs ds yaml yd sigcs sl cd idx m mres tail)
  note tl = manifest_run_tail[OF run(10)]
  note sg = manifest_run_sig[OF run(7)]
  have pm: "pushed_manifests (calls_made E r signature w) = [m]"
    using run(2) tl sg package_calls_no_manifest[OF run(3)]
    by (simp add: pushed_manifests_def)
  have in1: "Call_Marshal (r_bundle r) (Inr yaml) \<in> set (calls_made E r signature w)"
    and in2: "Call_PushLayer dst yaml (ZarfLayerMediaTypeBlob E) (Inr yd)
       \<in> set (calls_made E r signature w)"
    using run(2) by simp_all
  have n: "Layers m ! length (Packages (r_bundle r)) =
      yd\<lparr>Annotations := [AnnotationTitle E \<mapsto> BundleYAML E]\<rparr>"
    using run(5,8) by (simp add: nth_append)
  have s: "signature \<noteq> [] \<longrightarrow>
      (\<exists>sd. Call_PushLayer dst signature (ZarfLayerMediaTypeBlob E) (Inr sd)
               \<in> set (calls_made E r signature w) \<and>
         Layers m ! Suc (length (Packages (r_bundle r))) =
           sd\<lparr>Annotations := [AnnotationTitle E \<mapsto> BundleYAMLSignature E]\<rparr> \<and>
         Annotations (Layers m ! Suc (length (Packages (r_bundle r)))) =
           [AnnotationTitle E \<mapsto> BundleYAMLSignature E])"
  proof
    assume "signature \<noteq> []"
    with run(7) obtain sd where sd:
      "sigcs = [Call_PushLayer dst signature (ZarfLayerMediaTypeBlob E) (Inr sd)]"
      "sl = [sd\<lparr>Annotations := [AnnotationTitle E \<mapsto> BundleYAMLSignature E]\<rparr>]"
      by auto
    from run(2) sd(1)
    have "Call_PushLayer dst signature (ZarfLayerMediaTypeBlob E) (Inr sd)
        \<in> set (calls_made E r signature w)" by simp
    moreover have "Layers m ! Suc (length (Packages (r_bundle r))) =
        sd\<lparr>Annotations := [AnnotationTitle E \<mapsto> BundleYAMLSignature E]\<rparr>"
      using run(5,8) sd(2) by (simp add: nth_append)
    ultimately show "\<exists>sd. Call_PushLayer dst signature (ZarfLayerMediaTypeBlob E) (Inr sd)
               \<in> set (calls_made E r signature w) \<and>
         Layers m ! Suc (length (Packages (r_bundle r))) =
           sd\<lparr>Annotations := [AnnotationTitle E \<mapsto> BundleYAMLSignature E]\<rparr> \<and>
         Annotations (Layers m ! Suc (length (Packages (r_bundle r)))) =
           [AnnotationTitle E \<mapsto> BundleYAMLSignature E]"
      by (intro exI[of _ sd]) simp
  qed
  from pm in1 in2 n s show ?thesis
    by (intro exI[of _ m] exI[of _ dst] exI[of _ yaml] exI[of _ yd]) simp
qed

theorem layer_title_annotations_witness:
  "returned example_env example_receiver [7] example_world = None \<and>
   [7 :: 8 word] \<noteq> [] \<and>
   length (Packages (r_bundle example_receiver)) = 2 \<and>
   Annotations (Layers (hd (pushed_manifests
       (calls_made example_env example_receiver [7] example_world))) ! 2)
     = [''title'' \<mapsto> ''uds-bundle.yaml''] \<and>
   Annotations (Layers (hd (pushed_manifests
       (calls_made example_env example_receiver [7] example_world))) ! Suc 2)
     = [''title'' \<mapsto> ''uds-bundle.yaml.sig'']"
proof -
  have h: "returned example_env example_receiver [7] example_world = None"
    by (simp add: eval_defs)
  have n: "length (Packages (r_bundle example_receiver)) = 2"
    by (simp add: example_receiver_def example_bundle_def)
  have y: "Annotations (Layers (hd (pushed_manifests
       (calls_made example_env example_receiver [7] example_world))) ! 2)
     = [''title'' \<mapsto> ''uds-bundle.yaml'']"
    by (simp add: eval_defs pushed_manifests_def)
  have g: "Annotations (Layers (hd (pushed_manifests
       (calls_made example_env example_receiver [7] example_world))) ! Suc 2)
     = [''title'' \<mapsto> ''uds-bundle.yaml.sig'']"
    by (simp add: eval_defs pushed_manifests_def)
  show ?thesis
    using h n y g layer_title_annotations[OF h] by simp
qed

subsection \<open>The platform of the clients\<close>

text \<open>
  Every client that \<open>create\<close> binds, for the destination and for each package
  source, is bound to the platform made of the configured architecture and the
  multi-platform marker, whatever the architecture in the bundle's metadata.
\<close>

lemma package_call_platform:
  "is_package_call p c \<Longrightarrow> bound_platform c = Some q \<Longrightarrow> q = p"
  by (cases c) simp_all

lemma assembly_call_platform: "is_assembly_call c \<Longrightarrow> bound_platform c = None"
  by (cases c) simp_all

lemma clients_bound_to_configured_platform:
  assumes "c \<in> set (calls_made E r signature w)" and "bound_platform c = Some p"
  shows "p = \<lparr>PlatformArchitecture = GetArch E, OS = MultiOS E\<rparr>"
  using create_run[of E r signature w]
proof (cases rule: create_cases)
  case (reference_failed e)
  with assms show ?thesis by (auto simp: calls_made_def)
next
  case (bind_failed ref e)
  with assms show ?thesis by (auto simp: calls_made_def)
next
  case (no_architecture ref dst)
  with assms show ?thesis by (auto simp: calls_made_def)
next
  case (package_failed ref dst pcs e)
  from assms package_failed(3)
  have "p = \<lparr>PlatformArchitecture = GetArch E, OS = MultiOS E\<rparr> \<or> c \<in> set pcs"
    by (auto simp: calls_made_def)
  with package_failed(4) assms(2) show ?thesis
    by (auto dest: package_call_platform)
next
  case (assembly_failed ref dst pcs acs e)
  from assms assembly_failed(3)
  have "p = \<lparr>PlatformArchitecture = GetArch E, OS = MultiOS E\<rparr> \<or> c \<in> set pcs \<or> c \<in> set acs"
    by (auto simp: calls_made_def)
  moreover have "c \<notin> set acs"
  proof
    assume "c \<in> set acs"
    with assembly_failed(6) have "is_assembly_call c" by blast
    from assembly_call_platform[OF this] assms(2) show False by simp
  qed
  ultimately show ?thesis
    using assembly_failed(4) assms(2) by (auto dest: package_call_platform)
next
  case (manifest_pushed ref dst pcs ds yaml yd sigcs sl cd idx m mres tail)
  from manifest_pushed(10) have tail: "\<forall>c' \<in> set tail. bound_platform c' = None"
    by (auto split: sum.splits)
  from manifest_pushed(7) have sigcs: "\<forall>c' \<in> set sigcs. bound_platform c' = None"
    by auto
  from assms manifest_pushed(2) tail sigcs
  have "p = \<lparr>PlatformArchitecture = GetArch E, OS = MultiOS E\<rparr> \<or> c \<in> set pcs"
    by (auto simp: calls_made_def)
  with manifest_pushed(3) assms(2) show ?thesis
    by (auto dest: package_call_platform)
qed

end
